theory Spec2Isabelle
  imports Main
begin

section \<open>Fee calculation\<close>

text \<open>
  \<^verbatim>\<open>fee_calculator\<close> of \<^verbatim>\<open>swap/providers/bitcoin/utils.py\<close>. Python integers are
  unbounded, so both counts are \<^typ>\<open>int\<close>; the function rebinds its two parameters
  and returns their sum.
\<close>

definition fee_calculator :: "int \<Rightarrow> int \<Rightarrow> int" where
  "fee_calculator transaction_input transaction_output =
     (let transaction_input' = ((transaction_input - 1) * 444) + 576;
          transaction_output' = ((transaction_output - 1) * 102)
      in transaction_input' + transaction_output')"

section \<open>Selection of previous transaction indexes\<close>

text \<open>
  The loop shared by \<^verbatim>\<open>FundTransaction.get_previous_transaction_indexes\<close> (which reads
  \<^verbatim>\<open>unspent["amount"]\<close>) and \<^verbatim>\<open>_get_previous_transaction_indexes\<close> (which reads
  \<^verbatim>\<open>utxo["value"]\<close>). The arguments are the target amount, the current index of
  \<^verbatim>\<open>enumerate\<close>, the running \<^verbatim>\<open>temp_amount\<close>, the amounts still to be visited
  and the indexes appended so far. The \<^verbatim>\<open>break\<close> branch appends the index and
  stops.
\<close>

fun indexes_loop :: "int \<Rightarrow> nat \<Rightarrow> int \<Rightarrow> int list \<Rightarrow> nat list \<Rightarrow> nat list" where
  "indexes_loop amount index temp_amount [] previous_transaction_indexes =
     previous_transaction_indexes"
| "indexes_loop amount index temp_amount (a # rest) previous_transaction_indexes =
     (let temp_amount' = temp_amount + a in
      if temp_amount' > (amount + fee_calculator (int index + 1) 2)
      then previous_transaction_indexes @ [index]
      else indexes_loop amount (Suc index) temp_amount' rest
             (previous_transaction_indexes @ [index]))"

text \<open>
  An unspent output as the wallet reports it: the dictionary keys \<^verbatim>\<open>hash\<close>,
  \<^verbatim>\<open>output_index\<close>, \<^verbatim>\<open>amount\<close> and \<^verbatim>\<open>script\<close> that the builder reads.
\<close>

record utxo =
  utxo_hash :: string
  utxo_output_index :: int
  utxo_amount :: int
  utxo_script :: string

definition get_previous_transaction_indexes :: "utxo list \<Rightarrow> int \<Rightarrow> nat list" where
  "get_previous_transaction_indexes unspent amount =
     indexes_loop amount 0 0 (map utxo_amount unspent) []"

text \<open>The free function of \<^verbatim>\<open>utils.py\<close> takes the list of UTXO values.\<close>

definition get_previous_transaction_indexes_utils :: "int list \<Rightarrow> int \<Rightarrow> nat list" where
  "get_previous_transaction_indexes_utils utxos amount = indexes_loop amount 0 0 utxos []"

text \<open>
  Vocabulary for the statements: the amount accumulated over the first \<open>k\<close> items, and
  whether that prefix passes the loop's test (a strict comparison) or the weaker test
  with \<open>\<ge>\<close>.
\<close>

definition prefix_amount :: "int list \<Rightarrow> nat \<Rightarrow> int" where
  "prefix_amount amounts k = sum_list (take k amounts)"

definition exceeds :: "int list \<Rightarrow> int \<Rightarrow> nat \<Rightarrow> bool" where
  "exceeds amounts amount k = (prefix_amount amounts k > amount + fee_calculator (int k) 2)"

definition reaches :: "int list \<Rightarrow> int \<Rightarrow> nat \<Rightarrow> bool" where
  "reaches amounts amount k = (prefix_amount amounts k \<ge> amount + fee_calculator (int k) 2)"


section \<open>Errors\<close>

text \<open>
  Every \<^verbatim>\<open>raise\<close> of the modelled functions is a value of this type.
  \<^verbatim>\<open>ValueError\<close> is what the null-state checks raise; \<^verbatim>\<open>AttributeError\<close> is what
  Python raises for a method call on \<^verbatim>\<open>None\<close>; \<^verbatim>\<open>NotFoundHTLC\<close> stands for the
  plain \<^verbatim>\<open>Exception("Not found HTLC in this ... hash")\<close> of the constructors. An
  exception that the script library btcpy raises inside one of its calls passes through
  the builders unchanged; it is kept apart as \<open>LibraryError\<close>, with the name of its class.
  The \<^verbatim>\<open>isinstance\<close> checks of the builders have no branch here: the types of the
  model exclude the arguments they reject.
\<close>

datatype library_error =
    OverflowError
  | WrongScriptTypeException
  | Other_library_error string

datatype error =
    ValueError
  | AttributeError
  | KeyError
  | IndexError
  | BalanceError
  | TransactionRawError
  | NotFoundHTLC
  | LibraryError library_error

section \<open>Transactions of the script library\<close>

text \<open>
  The values of the btcpy library that the builders construct. A script is kept as the
  hex string it was read from, tagged by the class whose \<^verbatim>\<open>unhexlify\<close> read it; an
  address is either a parsed string or the address of a script for a network
  (\<^verbatim>\<open>script.address(mainnet=...)\<close>). \<^verbatim>\<open>Sequence.max()\<close> is the largest 32-bit
  value; the decoded transaction in the documentation of \<^verbatim>\<open>decode_transaction_raw\<close>
  prints it as \<^verbatim>\<open>'sequence': '4294967295'\<close>.
\<close>

datatype script = Script string | P2pkhScript string | P2shScript string

datatype address = Address string | Script_address script bool

datatype sequence = Sequence int

definition Sequence_max :: sequence where
  "Sequence_max = Sequence 4294967295"

datatype TxOut = TxOut (txout_value: int) (txout_n: int) (txout_script_pubkey: script)

text \<open>
  Modelled from the spec: \<^verbatim>\<open>htlc.py\<close> of the bitcoin provider is not among the sources.
  The contract script is a pure function of the secret hash, the recipient identity, the
  sender identity and the timeout, and changing any one of them changes it; it is kept
  as the term naming the four. \<open>HTLC_init\<close> is the \<^verbatim>\<open>script\<close> attribute of
  \<^verbatim>\<open>HTLC(network).init(secret_hash, recipient_address, sender_address, sequence)\<close>.
\<close>

datatype htlc_script =
  HTLC_script (htlc_secret_hash: string) (htlc_recipient: address) (htlc_sender: address)
    (htlc_sequence: int)

definition HTLC_init :: "string \<Rightarrow> string \<Rightarrow> address \<Rightarrow> address \<Rightarrow> int \<Rightarrow> htlc_script" where
  "HTLC_init net secret_hash recipient_address sender_address seq =
     HTLC_script secret_hash recipient_address sender_address seq"

text \<open>What the fund builder reads of its \<^verbatim>\<open>htlc\<close> argument: \<^verbatim>\<open>htlc.hash()\<close>.\<close>

record HTLC =
  HTLC_hash :: string

text \<open>
  Modelled from the spec: \<^verbatim>\<open>solver.py\<close> is not among the sources. A fund solver needs
  only a private key; a claim solver needs a private key and the secret preimage and
  selects the claim branch; a refund solver needs only a private key and selects the
  refund branch, the one that the relative timeout locks: what it hands to the library
  carries the solver's sequence as its relative timelock. The records hold the
  attributes that \<^verbatim>\<open>sign\<close> reads (\<^verbatim>\<open>solver.secret\<close>, \<^verbatim>\<open>solver.sequence\<close>) and the
  private key.
\<close>

datatype unlocking =
    Ordinary_path string
  | Claim_path string string
  | Refund_path string sequence

record FundSolver =
  fund_private_key :: string

record ClaimSolver =
  claim_secret :: string
  claim_private_key :: string
  claim_sequence :: int

record RefundSolver =
  refund_secret :: string
  refund_private_key :: string
  refund_sequence :: int

definition FundSolver_solve :: "FundSolver \<Rightarrow> unlocking" where
  "FundSolver_solve solver = Ordinary_path (fund_private_key solver)"

definition ClaimSolver_solve :: "ClaimSolver \<Rightarrow> unlocking" where
  "ClaimSolver_solve solver = Claim_path (claim_private_key solver) (claim_secret solver)"

definition RefundSolver_solve :: "RefundSolver \<Rightarrow> unlocking" where
  "RefundSolver_solve solver =
     Refund_path (refund_private_key solver) (Sequence (refund_sequence solver))"

text \<open>
  The solvers handed to \<^verbatim>\<open>spend\<close>: the fund path passes \<^verbatim>\<open>solver.solve()\<close> itself,
  the claim and refund paths wrap it as \<^verbatim>\<open>P2shSolver(htlc.script, solver.solve())\<close>.
  A solved input keeps the output it spends and its solver.
\<close>

datatype spend_solver = Plain_solver unlocking | P2shSolver htlc_script unlocking

datatype script_sig = ScriptSig_empty | ScriptSig_solved TxOut spend_solver

datatype TxIn =
  TxIn (txin_txid: string) (txin_txout: int) (txin_script_sig: script_sig)
    (txin_sequence: sequence)

datatype MutableTransaction =
  MutableTransaction (tx_version: int) (tx_ins: "TxIn list") (tx_outs: "TxOut list")
    (tx_locktime: int)

subsection \<open>What the library refuses\<close>

text \<open>
  Three calls of the library can raise: \<^verbatim>\<open>unhexlify\<close> of a script class on a text
  that is not a script of that class, the constructor \<^verbatim>\<open>MutableTransaction(...)\<close>,
  which serialises the transaction to compute its identifier and so refuses a number
  that does not fit its field, and \<^verbatim>\<open>spend\<close>. The library is not part of the
  repository: what each call refuses, and with which exception, is a parameter of the
  builders, \<^verbatim>\<open>None\<close> when the call goes through.
\<close>

record btcpy =
  unhexlify_error :: "script \<Rightarrow> library_error option"
  construct_error :: "MutableTransaction \<Rightarrow> library_error option"
  spend_error :: "MutableTransaction \<Rightarrow> TxOut list \<Rightarrow> spend_solver list \<Rightarrow> library_error option"

text \<open>
  \<^verbatim>\<open>P2shScript.unhexlify(h)\<close> is \<open>unhexlify lib (P2shScript h)\<close>, and so for the other
  two classes.
\<close>

definition unhexlify :: "btcpy \<Rightarrow> script \<Rightarrow> error + script" where
  "unhexlify lib s =
     (case unhexlify_error lib s of Some e \<Rightarrow> Inl (LibraryError e) | None \<Rightarrow> Inr s)"

definition MutableTransaction_new ::
    "btcpy \<Rightarrow> int \<Rightarrow> TxIn list \<Rightarrow> TxOut list \<Rightarrow> int \<Rightarrow> error + MutableTransaction" where
  "MutableTransaction_new lib ver ins outs locktime =
     (case construct_error lib (MutableTransaction ver ins outs locktime) of
        Some e \<Rightarrow> Inl (LibraryError e)
      | None \<Rightarrow> Inr (MutableTransaction ver ins outs locktime))"

text \<open>
  \<^verbatim>\<open>transaction.spend(txouts, solvers)\<close> attaches to the i-th input the unlocking
  script its solver produces for the i-th spent output, and a solver with a relative
  timelock puts that timelock into the input's sequence. An input without a solver is
  left as it is.
\<close>

fun relative_timelock :: "spend_solver \<Rightarrow> sequence option" where
  "relative_timelock (Plain_solver (Refund_path _ s)) = Some s"
| "relative_timelock (P2shSolver _ (Refund_path _ s)) = Some s"
| "relative_timelock _ = None"

definition solve_input :: "TxIn \<Rightarrow> TxOut \<times> spend_solver \<Rightarrow> TxIn" where
  "solve_input i os =
     TxIn (txin_txid i) (txin_txout i) (ScriptSig_solved (fst os) (snd os))
       (case relative_timelock (snd os) of Some s \<Rightarrow> s | None \<Rightarrow> txin_sequence i)"

fun solve_inputs :: "TxIn list \<Rightarrow> (TxOut \<times> spend_solver) list \<Rightarrow> TxIn list" where
  "solve_inputs [] _ = []"
| "solve_inputs (i # ins) [] = i # ins"
| "solve_inputs (i # ins) (os # rest) = solve_input i os # solve_inputs ins rest"

definition spend :: "btcpy \<Rightarrow> MutableTransaction \<Rightarrow> TxOut list \<Rightarrow> spend_solver list
    \<Rightarrow> error + MutableTransaction" where
  "spend lib tx txouts solvers =
     (case spend_error lib tx txouts solvers of
        Some e \<Rightarrow> Inl (LibraryError e)
      | None \<Rightarrow>
          Inr (MutableTransaction (tx_version tx)
                 (solve_inputs (tx_ins tx) (zip txouts solvers))
                 (tx_outs tx) (tx_locktime tx)))"

section \<open>The transaction builders\<close>

text \<open>
  The wallet as the builders use it: \<^verbatim>\<open>wallet.address()\<close>, \<^verbatim>\<open>wallet.p2pkh()\<close> and the
  list that \<^verbatim>\<open>wallet.unspent()\<close> returns.
\<close>

record Wallet =
  wallet_address :: string
  wallet_p2pkh :: string
  wallet_unspent :: "utxo list"

text \<open>
  The base class \<^verbatim>\<open>Transaction\<close>; the three variants extend it, as the subclasses do.
  \<^verbatim>\<open>transaction\<close> is \<^verbatim>\<open>None\<close> until \<^verbatim>\<open>build_transaction\<close> has run. The
  constructor's \<^verbatim>\<open>setup(network, strict=True)\<close> configures the library and is taken
  to accept the network.
\<close>

record Transaction =
  version :: int
  transaction :: "MutableTransaction option"
  network :: string
  fee :: int

text \<open>
  \<^verbatim>\<open>hash\<close>, \<^verbatim>\<open>json\<close> and \<^verbatim>\<open>raw\<close> share their guard; what the library computes from
  the transaction (\<^verbatim>\<open>txid\<close>, \<^verbatim>\<open>to_json()\<close>, \<^verbatim>\<open>hexlify()\<close>) is the parameter \<open>f\<close>.
\<close>

definition Transaction_hash :: "(MutableTransaction \<Rightarrow> 'r) \<Rightarrow> 'a Transaction_scheme \<Rightarrow> error + 'r" where
  "Transaction_hash f self =
     (case transaction self of None \<Rightarrow> Inl ValueError | Some tx \<Rightarrow> Inr (f tx))"

definition Transaction_json :: "(MutableTransaction \<Rightarrow> 'r) \<Rightarrow> 'a Transaction_scheme \<Rightarrow> error + 'r" where
  "Transaction_json f self =
     (case transaction self of None \<Rightarrow> Inl ValueError | Some tx \<Rightarrow> Inr (f tx))"

definition Transaction_raw :: "(MutableTransaction \<Rightarrow> 'r) \<Rightarrow> 'a Transaction_scheme \<Rightarrow> error + 'r" where
  "Transaction_raw f self =
     (case transaction self of None \<Rightarrow> Inl ValueError | Some tx \<Rightarrow> Inr (f tx))"

text \<open>
  \<^verbatim>\<open>previous_transaction_indexes is None or index in previous_transaction_indexes\<close>
\<close>

definition selected :: "nat list option \<Rightarrow> nat \<Rightarrow> bool" where
  "selected previous_transaction_indexes index =
     (case previous_transaction_indexes of None \<Rightarrow> True | Some l \<Rightarrow> index \<in> set l)"

text \<open>The unsigned input that \<^verbatim>\<open>inputs\<close> makes of an unspent output.\<close>

definition utxo_input :: "utxo \<Rightarrow> TxIn" where
  "utxo_input u = TxIn (utxo_hash u) (utxo_output_index u) ScriptSig_empty Sequence_max"

fun inputs_loop :: "nat \<Rightarrow> utxo list \<Rightarrow> nat list option \<Rightarrow> TxIn list \<times> int \<Rightarrow> TxIn list \<times> int" where
  "inputs_loop index [] p acc = acc"
| "inputs_loop index (u # us) p acc =
     (if selected p index
      then inputs_loop (Suc index) us p (fst acc @ [utxo_input u], snd acc + utxo_amount u)
      else inputs_loop (Suc index) us p acc)"

definition Transaction_inputs :: "utxo list \<Rightarrow> nat list option \<Rightarrow> TxIn list \<times> int" where
  "Transaction_inputs utxos previous_transaction_indexes =
     inputs_loop 0 utxos previous_transaction_indexes ([], 0)"

text \<open>
  \<^verbatim>\<open>outputs\<close> reads the script of every selected output with \<^verbatim>\<open>Script.unhexlify\<close>
  and stops at the first one the library refuses.
\<close>

fun outputs_loop :: "btcpy \<Rightarrow> nat \<Rightarrow> utxo list \<Rightarrow> nat list option \<Rightarrow> TxOut list
    \<Rightarrow> error + TxOut list" where
  "outputs_loop lib index [] p acc = Inr acc"
| "outputs_loop lib index (u # us) p acc =
     (if selected p index
      then (case unhexlify lib (Script (utxo_script u)) of
              Inl e \<Rightarrow> Inl e
            | Inr s \<Rightarrow>
                outputs_loop lib (Suc index) us p
                  (acc @ [TxOut (utxo_amount u) (utxo_output_index u) s]))
      else outputs_loop lib (Suc index) us p acc)"

definition Transaction_outputs :: "btcpy \<Rightarrow> utxo list \<Rightarrow> nat list option \<Rightarrow> error + TxOut list" where
  "Transaction_outputs lib utxos previous_transaction_indexes =
     outputs_loop lib 0 utxos previous_transaction_indexes []"

subsection \<open>Fund\<close>

record FundTransaction = Transaction +
  fund_wallet :: "Wallet option"
  fund_htlc :: "HTLC option"
  fund_amount :: "int option"
  fund_unspent :: "utxo list option"
  fund_previous_transaction_indexes :: "nat list option"

definition FundTransaction_init :: "int \<Rightarrow> string \<Rightarrow> FundTransaction" where
  "FundTransaction_init ver net =
     \<lparr>version = ver, transaction = None, network = net, fee = 0,
      fund_wallet = None, fund_htlc = None, fund_amount = None, fund_unspent = None,
      fund_previous_transaction_indexes = None\<rparr>"

text \<open>
  \<^verbatim>\<open>build_transaction\<close> assigns the fields in the order of the source and raises
  \<^verbatim>\<open>BalanceError\<close> before anything of the transaction is made. Then the arguments of
  \<^verbatim>\<open>MutableTransaction(...)\<close> are evaluated in order, the two output scripts among
  them, and the constructor is called. A raise is returned as the error alone.
\<close>

definition FundTransaction_build_transaction ::
    "btcpy \<Rightarrow> FundTransaction \<Rightarrow> Wallet \<Rightarrow> HTLC \<Rightarrow> int \<Rightarrow> int \<Rightarrow> error + FundTransaction" where
  "FundTransaction_build_transaction lib self wallet htlc amount locktime =
     (let self1 = self\<lparr>fund_wallet := Some wallet, fund_htlc := Some htlc,
                        fund_amount := Some amount\<rparr>;
          self2 = self1\<lparr>fund_unspent := Some (wallet_unspent wallet)\<rparr>;
          self3 = self2\<lparr>fund_previous_transaction_indexes :=
                          Some (get_previous_transaction_indexes (wallet_unspent wallet) amount)\<rparr>;
          ia = Transaction_inputs (wallet_unspent wallet)
                 (fund_previous_transaction_indexes self3);
          self4 = self3\<lparr>fee := fee_calculator (int (length (fst ia))) 2\<rparr>
      in if snd ia < (amount + fee self4) then Inl BalanceError
         else
           (case unhexlify lib (P2shScript (HTLC_hash htlc)) of
              Inl e \<Rightarrow> Inl e
            | Inr htlc_out \<Rightarrow>
                (case unhexlify lib (P2pkhScript (wallet_p2pkh wallet)) of
                   Inl e \<Rightarrow> Inl e
                 | Inr change_out \<Rightarrow>
                     (case MutableTransaction_new lib (version self4) (fst ia)
                             [TxOut amount 0 htlc_out,
                              TxOut (snd ia - (fee self4 + amount)) 1 change_out]
                             locktime of
                        Inl e \<Rightarrow> Inl e
                      | Inr tx \<Rightarrow> Inr (self4\<lparr>transaction := Some tx\<rparr>)))))"

text \<open>Python's \<^verbatim>\<open>not x\<close> for an optional list: \<^verbatim>\<open>None\<close> and the empty list are false.\<close>

definition falsy :: "'a list option \<Rightarrow> bool" where
  "falsy x = (case x of None \<Rightarrow> True | Some l \<Rightarrow> l = [])"

definition FundTransaction_sign ::
    "btcpy \<Rightarrow> FundTransaction \<Rightarrow> FundSolver \<Rightarrow> error + FundTransaction" where
  "FundTransaction_sign lib self solver =
     (if falsy (fund_unspent self) \<or> falsy (fund_previous_transaction_indexes self)
         \<or> transaction self = None
      then Inl ValueError
      else
        (case Transaction_outputs lib (the (fund_unspent self))
                (fund_previous_transaction_indexes self) of
           Inl e \<Rightarrow> Inl e
         | Inr outputs \<Rightarrow>
             (case spend lib (the (transaction self)) outputs
                     (map (\<lambda>_. Plain_solver (FundSolver_solve solver)) outputs) of
                Inl e \<Rightarrow> Inl e
              | Inr tx \<Rightarrow> Inr (self\<lparr>transaction := Some tx\<rparr>))))"

subsection \<open>Claim and refund\<close>

text \<open>
  The detail of the funding transaction that \<^verbatim>\<open>get_transaction_detail\<close> fetched:
  \<^verbatim>\<open>None\<close> when it has no \<^verbatim>\<open>outputs\<close> key, otherwise the \<^verbatim>\<open>value\<close> and
  \<^verbatim>\<open>script\<close> of each output. The constructor reads the first output and parses its
  script as a P2SH script, then reads the second and parses its script as a P2PKH
  script; each step can raise.
\<close>

record detail_output =
  detail_value :: int
  detail_script :: string

record ClaimTransaction = Transaction +
  claim_wallet :: Wallet
  claim_htlc_transaction_id :: string
  claim_htlc_transaction_detail :: "detail_output list"
  claim_htlc :: detail_output
  claim_htlc_value :: int
  claim_htlc_script :: script
  claim_htlc_address :: address
  claim_sender_script :: script
  claim_sender_address :: address

definition ClaimTransaction_init ::
    "btcpy \<Rightarrow> string \<Rightarrow> Wallet \<Rightarrow> detail_output list option \<Rightarrow> string \<Rightarrow> int
      \<Rightarrow> error + ClaimTransaction" where
  "ClaimTransaction_init lib htlc_hash wallet detail net ver =
     (let mainnet = (if net = ''mainnet'' then True else False) in
      case detail of
        None \<Rightarrow> Inl NotFoundHTLC
      | Some [] \<Rightarrow> Inl IndexError
      | Some (h # rest) \<Rightarrow>
          (case unhexlify lib (P2shScript (detail_script h)) of
             Inl e \<Rightarrow> Inl e
           | Inr htlc_s \<Rightarrow>
               (case rest of
                  [] \<Rightarrow> Inl IndexError
                | c # _ \<Rightarrow>
                    (case unhexlify lib (P2pkhScript (detail_script c)) of
                       Inl e \<Rightarrow> Inl e
                     | Inr sender_s \<Rightarrow>
                         Inr \<lparr>version = ver, transaction = None, network = net, fee = 0,
                              claim_wallet = wallet, claim_htlc_transaction_id = htlc_hash,
                              claim_htlc_transaction_detail = the detail,
                              claim_htlc = h, claim_htlc_value = detail_value h,
                              claim_htlc_script = htlc_s,
                              claim_htlc_address = Script_address htlc_s mainnet,
                              claim_sender_script = sender_s,
                              claim_sender_address = Script_address sender_s mainnet\<rparr>))))"

definition ClaimTransaction_build_transaction ::
    "btcpy \<Rightarrow> ClaimTransaction \<Rightarrow> int \<Rightarrow> error + ClaimTransaction" where
  "ClaimTransaction_build_transaction lib self locktime =
     (let self1 = self\<lparr>fee := fee_calculator 1 1\<rparr>
      in case unhexlify lib (P2pkhScript (wallet_p2pkh (claim_wallet self1))) of
           Inl e \<Rightarrow> Inl e
         | Inr out \<Rightarrow>
             (case MutableTransaction_new lib (version self1)
                     [TxIn (claim_htlc_transaction_id self1) 0 ScriptSig_empty Sequence_max]
                     [TxOut (claim_htlc_value self1 - fee_calculator 1 1) 0 out]
                     locktime of
                Inl e \<Rightarrow> Inl e
              | Inr tx \<Rightarrow> Inr (self1\<lparr>transaction := Some tx\<rparr>)))"

text \<open>
  \<^verbatim>\<open>sign\<close> has no guard of its own: the contract is derived first, then
  \<^verbatim>\<open>self.transaction.spend\<close> is looked up, which is an \<^verbatim>\<open>AttributeError\<close> on
  \<^verbatim>\<open>None\<close>. The hash \<^verbatim>\<open>double_sha256\<close> of the provider's \<^verbatim>\<open>utils\<close> is a parameter.
\<close>

definition ClaimTransaction_sign ::
    "btcpy \<Rightarrow> (string \<Rightarrow> string) \<Rightarrow> ClaimTransaction \<Rightarrow> ClaimSolver \<Rightarrow> error + ClaimTransaction" where
  "ClaimTransaction_sign lib double_sha256 self solver =
     (let htlc = HTLC_init (network self) (double_sha256 (claim_secret solver))
                   (Address (wallet_address (claim_wallet self)))
                   (claim_sender_address self) (claim_sequence solver)
      in case transaction self of
           None \<Rightarrow> Inl AttributeError
         | Some tx \<Rightarrow>
             (case spend lib tx [TxOut (claim_htlc_value self) 0 (claim_htlc_script self)]
                     [P2shSolver htlc (ClaimSolver_solve solver)] of
                Inl e \<Rightarrow> Inl e
              | Inr tx' \<Rightarrow> Inr (self\<lparr>transaction := Some tx'\<rparr>)))"

record RefundTransaction = Transaction +
  refund_wallet :: Wallet
  refund_htlc_transaction_id :: string
  refund_htlc_transaction_detail :: "detail_output list"
  refund_htlc :: detail_output
  refund_htlc_value :: int
  refund_htlc_script :: script
  refund_htlc_address :: address
  refund_sender_script :: script
  refund_sender_address :: address

definition RefundTransaction_init ::
    "btcpy \<Rightarrow> string \<Rightarrow> Wallet \<Rightarrow> detail_output list option \<Rightarrow> string \<Rightarrow> int
      \<Rightarrow> error + RefundTransaction" where
  "RefundTransaction_init lib htlc_hash wallet detail net ver =
     (let mainnet = (if net = ''mainnet'' then True else False) in
      case detail of
        None \<Rightarrow> Inl NotFoundHTLC
      | Some [] \<Rightarrow> Inl IndexError
      | Some (h # rest) \<Rightarrow>
          (case unhexlify lib (P2shScript (detail_script h)) of
             Inl e \<Rightarrow> Inl e
           | Inr htlc_s \<Rightarrow>
               (case rest of
                  [] \<Rightarrow> Inl IndexError
                | c # _ \<Rightarrow>
                    (case unhexlify lib (P2pkhScript (detail_script c)) of
                       Inl e \<Rightarrow> Inl e
                     | Inr sender_s \<Rightarrow>
                         Inr \<lparr>version = ver, transaction = None, network = net, fee = 0,
                              refund_wallet = wallet, refund_htlc_transaction_id = htlc_hash,
                              refund_htlc_transaction_detail = the detail,
                              refund_htlc = h, refund_htlc_value = detail_value h,
                              refund_htlc_script = htlc_s,
                              refund_htlc_address = Script_address htlc_s mainnet,
                              refund_sender_script = sender_s,
                              refund_sender_address = Script_address sender_s mainnet\<rparr>))))"

definition RefundTransaction_build_transaction ::
    "btcpy \<Rightarrow> RefundTransaction \<Rightarrow> int \<Rightarrow> error + RefundTransaction" where
  "RefundTransaction_build_transaction lib self locktime =
     (let self1 = self\<lparr>fee := fee_calculator 1 1\<rparr>
      in case unhexlify lib (P2pkhScript (wallet_p2pkh (refund_wallet self1))) of
           Inl e \<Rightarrow> Inl e
         | Inr out \<Rightarrow>
             (case MutableTransaction_new lib (version self1)
                     [TxIn (refund_htlc_transaction_id self1) 0 ScriptSig_empty Sequence_max]
                     [TxOut (refund_htlc_value self1 - fee self1) 0 out]
                     locktime of
                Inl e \<Rightarrow> Inl e
              | Inr tx \<Rightarrow> Inr (self1\<lparr>transaction := Some tx\<rparr>)))"

definition RefundTransaction_sign ::
    "btcpy \<Rightarrow> (string \<Rightarrow> string) \<Rightarrow> RefundTransaction \<Rightarrow> RefundSolver \<Rightarrow> error + RefundTransaction" where
  "RefundTransaction_sign lib double_sha256 self solver =
     (let htlc = HTLC_init (network self) (double_sha256 (refund_secret solver))
                   (Address (wallet_address (refund_wallet self)))
                   (refund_sender_address self) (refund_sequence solver)
      in case transaction self of
           None \<Rightarrow> Inl AttributeError
         | Some tx \<Rightarrow>
             (case spend lib tx [TxOut (refund_htlc_value self) 0 (refund_htlc_script self)]
                     [P2shSolver htlc (RefundSolver_solve solver)] of
                Inl e \<Rightarrow> Inl e
              | Inr tx' \<Rightarrow> Inr (self\<lparr>transaction := Some tx'\<rparr>)))"

section \<open>The portable envelope\<close>

text \<open>
  The envelope is a JSON object, written by \<^verbatim>\<open>json.dumps\<close> and \<^verbatim>\<open>b64encode\<close> and
  read back by \<^verbatim>\<open>b64decode\<close> and \<^verbatim>\<open>json.loads\<close> of the standard library. The model
  works on the JSON value: an encoder returns the object it serialises, and a decoder
  takes what \<^verbatim>\<open>clean_transaction_raw\<close>, \<^verbatim>\<open>b64decode\<close> and \<^verbatim>\<open>json.loads\<close> make of
  the text, \<^verbatim>\<open>None\<close> when one of them raises. \<^verbatim>\<open>json.loads\<close> keeps the last of
  repeated keys, and a subscript on anything but an object raises.
\<close>

datatype json =
    JNull
  | JBool bool
  | JInt int
  | JStr string
  | JList "json list"
  | JObj "(string \<times> json) list"


subsection \<open>Encoders\<close>

text \<open>
  The three \<^verbatim>\<open>unsigned_raw\<close> methods; \<open>hexlify\<close> is the library's serialisation of the
  transaction.
\<close>

fun raw_outputs_loop :: "nat \<Rightarrow> utxo list \<Rightarrow> nat list option \<Rightarrow> json list \<Rightarrow> json list" where
  "raw_outputs_loop index [] p acc = acc"
| "raw_outputs_loop index (u # us) p acc =
     (if selected p index
      then raw_outputs_loop (Suc index) us p
             (acc @ [JObj [(''amount'', JInt (utxo_amount u)),
                           (''n'', JInt (utxo_output_index u)),
                           (''script'', JStr (utxo_script u))]])
      else raw_outputs_loop (Suc index) us p acc)"

definition FundTransaction_unsigned_raw ::
    "(MutableTransaction \<Rightarrow> string) \<Rightarrow> FundTransaction \<Rightarrow> error + json" where
  "FundTransaction_unsigned_raw hexlify self =
     (if transaction self = None \<or> falsy (fund_unspent self) then Inl ValueError
      else
        (let outputs = raw_outputs_loop 0 (the (fund_unspent self))
                         (fund_previous_transaction_indexes self) []
         in Inr (JObj [(''fee'', JInt (fee self)),
                       (''raw'', JStr (hexlify (the (transaction self)))),
                       (''outputs'', JList outputs),
                       (''type'', JStr ''fund_unsigned'')])))"

definition ClaimTransaction_unsigned_raw ::
    "(MutableTransaction \<Rightarrow> string) \<Rightarrow> (address \<Rightarrow> string) \<Rightarrow> ClaimTransaction \<Rightarrow> error + json" where
  "ClaimTransaction_unsigned_raw hexlify str self =
     (case transaction self of
        None \<Rightarrow> Inl ValueError
      | Some tx \<Rightarrow>
          (let outputs = [JObj [(''amount'', JInt (claim_htlc_value self)), (''n'', JInt 0),
                                (''script'', JStr (detail_script (claim_htlc self)))]]
           in Inr (JObj [(''fee'', JInt (fee self)),
                         (''raw'', JStr (hexlify tx)),
                         (''outputs'', JList outputs),
                         (''type'', JStr ''claim_unsigned''),
                         (''recipient_address'', JStr (wallet_address (claim_wallet self))),
                         (''sender_address'', JStr (str (claim_sender_address self)))])))"

definition RefundTransaction_unsigned_raw ::
    "(MutableTransaction \<Rightarrow> string) \<Rightarrow> (address \<Rightarrow> string) \<Rightarrow> RefundTransaction \<Rightarrow> error + json" where
  "RefundTransaction_unsigned_raw hexlify str self =
     (case transaction self of
        None \<Rightarrow> Inl ValueError
      | Some tx \<Rightarrow>
          (let outputs = [JObj [(''amount'', JInt (refund_htlc_value self)), (''n'', JInt 0),
                                (''script'', JStr (detail_script (refund_htlc self)))]]
           in Inr (JObj [(''fee'', JInt (fee self)),
                         (''raw'', JStr (hexlify tx)),
                         (''outputs'', JList outputs),
                         (''type'', JStr ''refund_unsigned''),
                         (''recipient_address'', JStr (wallet_address (refund_wallet self))),
                         (''sender_address'', JStr (str (refund_sender_address self)))])))"

subsection \<open>Decoders\<close>





subsection \<open>The encoder that the decoders pair with\<close>

text \<open>
  Modelled from the spec: the encoder of the \<^verbatim>\<open>swap\<close> package, whose envelopes
  \<^verbatim>\<open>is_transaction_raw\<close> and \<^verbatim>\<open>decode_transaction_raw\<close> read, is not among the
  sources. The envelope is a JSON object with the fields \<^verbatim>\<open>fee\<close>, \<^verbatim>\<open>raw\<close>,
  \<^verbatim>\<open>outputs\<close> (each with \<^verbatim>\<open>amount\<close>, \<^verbatim>\<open>n\<close> and \<^verbatim>\<open>script\<close>), \<^verbatim>\<open>type\<close> and
  \<^verbatim>\<open>network\<close>, and for a claim or a refund also \<^verbatim>\<open>recipient_address\<close> and
  \<^verbatim>\<open>sender_address\<close>. The type is the variant of the builder and whether it has
  signed, written as the decoder recognizes it and as the documented envelope has it,
  with the name of the provider in front.
\<close>

datatype variant = Fund | Claim | Refund

datatype stage = Unsigned | Signed

definition type_tag :: "variant \<Rightarrow> stage \<Rightarrow> string" where
  "type_tag v s =
     ''bitcoin_''
     @ (case v of Fund \<Rightarrow> ''fund'' | Claim \<Rightarrow> ''claim'' | Refund \<Rightarrow> ''refund'')
     @ ''_''
     @ (case s of Unsigned \<Rightarrow> ''unsigned'' | Signed \<Rightarrow> ''signed'')"

record envelope_output =
  output_amount :: int
  output_n :: int
  output_script :: string

record envelope =
  envelope_fee :: int
  envelope_raw :: string
  envelope_outputs :: "envelope_output list"
  envelope_variant :: variant
  envelope_stage :: stage
  envelope_network :: string
  envelope_recipient_address :: string
  envelope_sender_address :: string

definition encode_output :: "envelope_output \<Rightarrow> json" where
  "encode_output out =
     JObj [(''amount'', JInt (output_amount out)), (''n'', JInt (output_n out)),
           (''script'', JStr (output_script out))]"

definition encode_transaction_raw :: "envelope \<Rightarrow> json" where
  "encode_transaction_raw e =
     JObj ([(''fee'', JInt (envelope_fee e)),
            (''raw'', JStr (envelope_raw e)),
            (''outputs'', JList (map encode_output (envelope_outputs e))),
            (''network'', JStr (envelope_network e)),
            (''type'', JStr (type_tag (envelope_variant e) (envelope_stage e)))]
           @ (if envelope_variant e = Fund then []
              else [(''recipient_address'', JStr (envelope_recipient_address e)),
                    (''sender_address'', JStr (envelope_sender_address e))]))"

section \<open>Reading what a builder returned\<close>

text \<open>
  The redeem script that a signed input carries, when its solver is a
  \<^verbatim>\<open>P2shSolver\<close>; the inputs and outputs, and the redeem scripts, the unlocking scripts and the
  sequences of the inputs, of what \<^verbatim>\<open>build_transaction\<close> or \<^verbatim>\<open>sign\<close> returned, none when it raised.
\<close>

fun redeem_script :: "TxIn \<Rightarrow> htlc_script option" where
  "redeem_script (TxIn _ _ (ScriptSig_solved _ (P2shSolver s _)) _) = Some s"
| "redeem_script _ = None"

definition result_inputs :: "error + 'a Transaction_scheme \<Rightarrow> TxIn list" where
  "result_inputs r =
     (case r of
        Inl _ \<Rightarrow> []
      | Inr self \<Rightarrow> (case transaction self of None \<Rightarrow> [] | Some tx \<Rightarrow> tx_ins tx))"

definition result_outputs :: "error + 'a Transaction_scheme \<Rightarrow> TxOut list" where
  "result_outputs r =
     (case r of
        Inl _ \<Rightarrow> []
      | Inr self \<Rightarrow> (case transaction self of None \<Rightarrow> [] | Some tx \<Rightarrow> tx_outs tx))"

definition redeem_scripts :: "error + 'a Transaction_scheme \<Rightarrow> htlc_script option list" where
  "redeem_scripts r = map redeem_script (result_inputs r)"

definition unlocking_witnesses :: "error + 'a Transaction_scheme \<Rightarrow> script_sig list" where
  "unlocking_witnesses r = map txin_script_sig (result_inputs r)"

definition input_sequences :: "error + 'a Transaction_scheme \<Rightarrow> sequence list" where
  "input_sequences r = map txin_sequence (result_inputs r)"

text \<open>\<^verbatim>\<open>build_transaction\<close> followed by \<^verbatim>\<open>sign\<close>, stopping at the first raise.\<close>

definition ClaimTransaction_build_and_sign ::
    "btcpy \<Rightarrow> (string \<Rightarrow> string) \<Rightarrow> ClaimTransaction \<Rightarrow> int \<Rightarrow> ClaimSolver
      \<Rightarrow> error + ClaimTransaction" where
  "ClaimTransaction_build_and_sign lib double_sha256 self locktime solver =
     (case ClaimTransaction_build_transaction lib self locktime of
        Inl e \<Rightarrow> Inl e
      | Inr built \<Rightarrow> ClaimTransaction_sign lib double_sha256 built solver)"

definition RefundTransaction_build_and_sign ::
    "btcpy \<Rightarrow> (string \<Rightarrow> string) \<Rightarrow> RefundTransaction \<Rightarrow> int \<Rightarrow> RefundSolver
      \<Rightarrow> error + RefundTransaction" where
  "RefundTransaction_build_and_sign lib double_sha256 self locktime solver =
     (case RefundTransaction_build_transaction lib self locktime of
        Inl e \<Rightarrow> Inl e
      | Inr built \<Rightarrow> RefundTransaction_sign lib double_sha256 built solver)"

section \<open>Example values\<close>

text \<open>
  The library as the examples need it. It refuses a text that does not have the shape
  of a P2SH or a P2PKH script for the class that reads it
  (\<^verbatim>\<open>WrongScriptTypeException\<close>), a transaction in which a version, an output index,
  an output value or the locktime does not fit its unsigned field (\<^verbatim>\<open>OverflowError\<close>),
  and a spend whose lists are not as long as the inputs.
\<close>

definition fits :: "nat \<Rightarrow> int \<Rightarrow> bool" where
  "fits bits x = (0 \<le> x \<and> x < 2 ^ bits)"

definition example_unhexlify_error :: "script \<Rightarrow> library_error option" where
  "example_unhexlify_error s =
     (case s of
        Script h \<Rightarrow> None
      | P2pkhScript h \<Rightarrow>
          (if length h = 50 \<and> take 6 h = ''76a914'' \<and> drop 46 h = ''88ac'' then None
           else Some WrongScriptTypeException)
      | P2shScript h \<Rightarrow>
          (if length h = 46 \<and> take 4 h = ''a914'' \<and> drop 44 h = ''87'' then None
           else Some WrongScriptTypeException))"

definition example_construct_error :: "MutableTransaction \<Rightarrow> library_error option" where
  "example_construct_error tx =
     (if fits 32 (tx_version tx)
         \<and> list_all (\<lambda>i. fits 32 (txin_txout i)) (tx_ins tx)
         \<and> list_all (\<lambda>out. fits 64 (txout_value out)) (tx_outs tx)
         \<and> fits 32 (tx_locktime tx)
      then None else Some OverflowError)"

definition example_spend_error ::
    "MutableTransaction \<Rightarrow> TxOut list \<Rightarrow> spend_solver list \<Rightarrow> library_error option" where
  "example_spend_error tx txouts solvers =
     (if length solvers = length (tx_ins tx) \<and> length txouts = length solvers then None
      else Some (Other_library_error ''ValueError''))"

definition example_btcpy :: btcpy where
  "example_btcpy =
     \<lparr>unhexlify_error = example_unhexlify_error,
      construct_error = example_construct_error,
      spend_error = example_spend_error\<rparr>"

text \<open>
  The funding transaction documented with \<^verbatim>\<open>decode_transaction_raw\<close>: a wallet whose
  one unspent output holds 984946, funding 10000 into the contract at a fee of 678, and
  the envelope and serialisation printed there.
\<close>

definition example_wallet :: Wallet where
  "example_wallet =
     \<lparr>wallet_address = ''mphBPZf15cRFcL5tUq6mCbE84XobZ1vg7Q'',
      wallet_p2pkh = ''76a91464a8390b0b1685fcbf2d4b457118dc8da92d553488ac'',
      wallet_unspent =
        [\<lparr>utxo_hash = ''91f3a0dc0621f78be74a971dfb35d75255426d273f766456d9975006ece78b88'',
          utxo_output_index = 1, utxo_amount = 984946,
          utxo_script = ''76a91464a8390b0b1685fcbf2d4b457118dc8da92d553488ac''\<rparr>]\<rparr>"

definition example_htlc :: HTLC where
  "example_htlc = \<lparr>HTLC_hash = ''a9142bb013c3e4beb08421dedcf815cb65a5c388178b87''\<rparr>"

definition example_hex :: string where
  "example_hex = ''0200000001888be7ec065097d95664763f276d425552d735fb1d974ae78bf72106dca0f3910100000000ffffffff02102700000000000017a9142bb013c3e4beb08421dedcf815cb65a5c388178b87bcdd0e00000000001976a91464a8390b0b1685fcbf2d4b457118dc8da92d553488ac00000000''"

definition example_envelope :: envelope where
  "example_envelope =
     \<lparr>envelope_fee = 678, envelope_raw = example_hex,
      envelope_outputs =
        [\<lparr>output_amount = 984946, output_n = 1,
          output_script = ''76a91464a8390b0b1685fcbf2d4b457118dc8da92d553488ac''\<rparr>],
      envelope_variant = Fund, envelope_stage = Unsigned,
      envelope_network = ''testnet'',
      envelope_recipient_address = [], envelope_sender_address = []\<rparr>"

definition example_fund :: FundTransaction where
  "example_fund =
     projr (FundTransaction_build_transaction example_btcpy (FundTransaction_init 2 ''testnet'')
              example_wallet example_htlc 10000 0)"

text \<open>
  A wallet whose first unspent output holds exactly a target of 1000 and the fee 678 of
  one input and two outputs, and the same wallet with a second, small output.
\<close>

definition exact_wallet :: Wallet where
  "exact_wallet =
     \<lparr>wallet_address = ''mphBPZf15cRFcL5tUq6mCbE84XobZ1vg7Q'',
      wallet_p2pkh = ''76a91464a8390b0b1685fcbf2d4b457118dc8da92d553488ac'',
      wallet_unspent =
        [\<lparr>utxo_hash = ''91f3a0dc0621f78be74a971dfb35d75255426d273f766456d9975006ece78b88'',
          utxo_output_index = 0, utxo_amount = 1678,
          utxo_script = ''76a91464a8390b0b1685fcbf2d4b457118dc8da92d553488ac''\<rparr>]\<rparr>"

definition exact_wallet_and_more :: Wallet where
  "exact_wallet_and_more =
     exact_wallet\<lparr>wallet_unspent := wallet_unspent exact_wallet @
        [\<lparr>utxo_hash = ''abc70fd3466aec9478ea3115200a84f993204ad1f614fe08e92ecc5997a0d3ba'',
          utxo_output_index = 1, utxo_amount = 5,
          utxo_script = ''76a91464a8390b0b1685fcbf2d4b457118dc8da92d553488ac''\<rparr>]\<rparr>"

text \<open>The identifier and the two outputs of the documented funding transaction, as a claim
  or a refund fetches them, and the same with another sender in the second output.\<close>

definition example_transaction_id :: string where
  "example_transaction_id = ''abc70fd3466aec9478ea3115200a84f993204ad1f614fe08e92ecc5997a0d3ba''"

definition example_detail :: "detail_output list option" where
  "example_detail =
     Some [\<lparr>detail_value = 10000,
             detail_script = ''a9142bb013c3e4beb08421dedcf815cb65a5c388178b87''\<rparr>,
           \<lparr>detail_value = 974268,
             detail_script = ''76a91464a8390b0b1685fcbf2d4b457118dc8da92d553488ac''\<rparr>]"

definition other_sender_detail :: "detail_output list option" where
  "other_sender_detail =
     Some [\<lparr>detail_value = 10000,
             detail_script = ''a9142bb013c3e4beb08421dedcf815cb65a5c388178b87''\<rparr>,
           \<lparr>detail_value = 974268,
             detail_script = ''76a9147b7c4431a43b612a72f8229935c469f1f690365888ac''\<rparr>]"

definition example_claim :: ClaimTransaction where
  "example_claim =
     projr (ClaimTransaction_init example_btcpy example_transaction_id example_wallet
              example_detail ''testnet'' 2)"

definition other_sender_claim :: ClaimTransaction where
  "other_sender_claim =
     projr (ClaimTransaction_init example_btcpy example_transaction_id example_wallet
              other_sender_detail ''testnet'' 2)"

definition example_refund :: RefundTransaction where
  "example_refund =
     projr (RefundTransaction_init example_btcpy example_transaction_id example_wallet
              example_detail ''testnet'' 2)"

definition example_claim_solver :: ClaimSolver where
  "example_claim_solver =
     \<lparr>claim_secret = ''Hello Meheret!'', claim_private_key = ''k'', claim_sequence = 1000\<rparr>"

definition example_refund_solver :: RefundSolver where
  "example_refund_solver =
     \<lparr>refund_secret = ''Hello Meheret!'', refund_private_key = ''k'', refund_sequence = 1000\<rparr>"

text \<open>
  Modelled from the spec: \<^verbatim>\<open>double_sha256\<close> of the provider's \<^verbatim>\<open>utils\<close> is not among
  the sources; the secret hash is the hash of the supplied preimage. The builders take
  the hash as a parameter. For evaluating examples a digest is written as the text that
  names its preimage, so that distinct preimages have distinct digests.
\<close>

definition symbolic_double_sha256 :: "string \<Rightarrow> string" where
  "symbolic_double_sha256 data = ''double_sha256('' @ data @ '')''"

section \<open>Properties of the fee calculation\<close>

lemma fee_calculator_linear:
  "fee_calculator i o' = 444 * i + 102 * o' + 30"
  by (simp add: fee_calculator_def Let_def algebra_simps)

text \<open>
  Claim C9. The fee calculation has the two regression values: two inputs and nine
  outputs cost 1836, one input and one output cost 576.
\<close>

theorem fee_calculator_regression:
  "fee_calculator 2 9 = 1836 \<and> fee_calculator 1 1 = 576"
  by (simp add: fee_calculator_def)

text \<open>
  Claim C2, as stated: the fee is \<open>576 + (input_count - 1) * 444 + output_count * 102\<close>.
  The code charges 102 for every output after the first, so two inputs and nine outputs
  cost 1836 and not 1938.
\<close>

theorem fee_calculator_spec_formula_counterexample:
  "fee_calculator 2 9 \<noteq> 576 + (2 - 1) * 444 + 9 * 102"
  by (simp add: fee_calculator_def)

text \<open>
  Claim C2, amended: for all counts the fee is
  \<open>576 + (input_count - 1) * 444 + (output_count - 1) * 102\<close>.
\<close>

theorem fee_calculator_formula:
  "fee_calculator input_count output_count =
     576 + (input_count - 1) * 444 + (output_count - 1) * 102"
  by (simp add: fee_calculator_def)

section \<open>Properties of the selection\<close>

lemma upt_shift: "(acc @ [i]) @ [Suc i..<Suc i + k] = acc @ [i..<i + Suc k]"
proof -
  have "[i..<i + Suc k] = i # [Suc i..<i + Suc k]"
    by (rule upt_conv_Cons) simp
  then show ?thesis by simp
qed

lemma indexes_loop_exhausted:
  "(\<And>j. 1 \<le> j \<Longrightarrow> j \<le> length as \<Longrightarrow>
      \<not> (t + sum_list (take j as) > amount + fee_calculator (int (i + j)) 2)) \<Longrightarrow>
   indexes_loop amount i t as acc = acc @ [i..<i + length as]"
proof (induction as arbitrary: i t acc)
  case Nil
  then show ?case by simp
next
  case (Cons a as)
  have first: "\<not> (t + a > amount + fee_calculator (int i + 1) 2)"
    using Cons.prems [of 1] by (simp add: add.commute)
  have rest: "indexes_loop amount (Suc i) (t + a) as (acc @ [i]) =
      (acc @ [i]) @ [Suc i..<Suc i + length as]"
  proof (rule Cons.IH)
    fix j assume j: "1 \<le> j" "j \<le> length as"
    show "\<not> (t + a + sum_list (take j as) > amount + fee_calculator (int (Suc i + j)) 2)"
      using Cons.prems [of "Suc j"] j by (simp add: add.assoc)
  qed
  have "indexes_loop amount i t (a # as) acc =
      indexes_loop amount (Suc i) (t + a) as (acc @ [i])"
    using first by (simp add: Let_def)
  also have "\<dots> = (acc @ [i]) @ [Suc i..<Suc i + length as]" by (rule rest)
  also have "\<dots> = acc @ [i..<i + Suc (length as)]" by (rule upt_shift)
  finally show ?case by simp
qed

lemma indexes_loop_stops:
  "1 \<le> k \<Longrightarrow> k \<le> length as \<Longrightarrow>
   t + sum_list (take k as) > amount + fee_calculator (int (i + k)) 2 \<Longrightarrow>
   (\<And>j. 1 \<le> j \<Longrightarrow> j < k \<Longrightarrow>
      \<not> (t + sum_list (take j as) > amount + fee_calculator (int (i + j)) 2)) \<Longrightarrow>
   indexes_loop amount i t as acc = acc @ [i..<i + k]"
proof (induction as arbitrary: i t acc k)
  case Nil
  then show ?case by simp
next
  case (Cons a as)
  show ?case
  proof (cases "k = 1")
    case True
    with Cons.prems(3) have "t + a > amount + fee_calculator (int i + 1) 2"
      by (simp add: add.commute)
    with True show ?thesis by (simp add: Let_def)
  next
    case False
    with Cons.prems(1) obtain k' where k': "k = Suc k'" "1 \<le> k'"
      by (cases k) auto
    have first: "\<not> (t + a > amount + fee_calculator (int i + 1) 2)"
      using Cons.prems(4) [of 1] k' by (simp add: add.commute)
    have rest: "indexes_loop amount (Suc i) (t + a) as (acc @ [i]) =
        (acc @ [i]) @ [Suc i..<Suc i + k']"
    proof (rule Cons.IH)
      show "1 \<le> k'" by (rule k')
      show "k' \<le> length as" using Cons.prems(2) k' by simp
      show "t + a + sum_list (take k' as) > amount + fee_calculator (int (Suc i + k')) 2"
        using Cons.prems(3) k' by (simp add: add.assoc)
    next
      fix j assume j: "1 \<le> j" "j < k'"
      show "\<not> (t + a + sum_list (take j as) > amount + fee_calculator (int (Suc i + j)) 2)"
        using Cons.prems(4) [of "Suc j"] j k' by (simp add: add.assoc)
    qed
    have "indexes_loop amount i t (a # as) acc =
        indexes_loop amount (Suc i) (t + a) as (acc @ [i])"
      using first by (simp add: Let_def)
    also have "\<dots> = (acc @ [i]) @ [Suc i..<Suc i + k']" by (rule rest)
    also have "\<dots> = acc @ [i..<i + Suc k']" by (rule upt_shift)
    finally show ?thesis using k' by simp
  qed
qed

lemma indexes_loop_prefix:
  "\<exists>k. k \<le> length as \<and> (as \<noteq> [] \<longrightarrow> 1 \<le> k) \<and> indexes_loop amount i t as acc = acc @ [i..<i + k]"
proof (induction as arbitrary: i t acc)
  case Nil
  then show ?case by simp
next
  case (Cons a as)
  show ?case
  proof (cases "t + a > amount + fee_calculator (int i + 1) 2")
    case True
    then have "indexes_loop amount i t (a # as) acc = acc @ [i..<i + 1]"
      by (simp add: Let_def)
    then show ?thesis by (intro exI [of _ 1]) simp
  next
    case False
    from Cons.IH [of "Suc i" "t + a" "acc @ [i]"]
    obtain k where k: "k \<le> length as"
      "indexes_loop amount (Suc i) (t + a) as (acc @ [i]) = (acc @ [i]) @ [Suc i..<Suc i + k]"
      by blast
    from False have "indexes_loop amount i t (a # as) acc =
        indexes_loop amount (Suc i) (t + a) as (acc @ [i])"
      by (simp add: Let_def)
    with k(2) have "indexes_loop amount i t (a # as) acc = acc @ [i..<i + Suc k]"
      by (simp only: upt_shift)
    with k(1) show ?thesis by (intro exI [of _ "Suc k"]) simp
  qed
qed

lemma indexes_loop_start_exhausted:
  assumes "\<And>j. 1 \<le> j \<Longrightarrow> j \<le> length as \<Longrightarrow> \<not> exceeds as amount j"
  shows "indexes_loop amount 0 0 as [] = [0..<length as]"
  using indexes_loop_exhausted [where as = as and t = 0 and amount = amount and i = 0 and acc = "[]"] assms
  by (simp add: exceeds_def prefix_amount_def)

lemma indexes_loop_start_stops:
  assumes "1 \<le> k" "k \<le> length as" "exceeds as amount k"
    and "\<And>j. 1 \<le> j \<Longrightarrow> j < k \<Longrightarrow> \<not> exceeds as amount j"
  shows "indexes_loop amount 0 0 as [] = [0..<k]"
  using indexes_loop_stops [where k = k and as = as and t = 0 and amount = amount and i = 0 and acc = "[]"] assms
  by (simp add: exceeds_def prefix_amount_def)

text \<open>
  What the loop does at its own, strict test: when \<open>k\<close> is the length of the shortest
  non-empty prefix whose accumulated amount is strictly greater than the target plus the
  fee for \<open>k\<close> inputs and two outputs, both selectors return the indexes
  \<open>0, \<dots>, k - 1\<close>.
\<close>

lemma selector_minimal_exceeding_prefix:
  assumes "1 \<le> k" and "k \<le> length unspent"
    and "exceeds (map utxo_amount unspent) amount k"
    and "\<forall>j. 1 \<le> j \<and> j < k \<longrightarrow> \<not> exceeds (map utxo_amount unspent) amount j"
  shows "get_previous_transaction_indexes unspent amount = [0..<k]
    \<and> get_previous_transaction_indexes_utils (map utxo_amount unspent) amount = [0..<k]
    \<and> prefix_amount (map utxo_amount unspent) k > amount + fee_calculator (int k) 2"
proof -
  have "indexes_loop amount 0 0 (map utxo_amount unspent) [] = [0..<k]"
    using assms by (intro indexes_loop_start_stops) auto
  then show ?thesis
    using assms(3)
    by (simp add: get_previous_transaction_indexes_def
        get_previous_transaction_indexes_utils_def exceeds_def)
qed

text \<open>
  Claim C10. The indexes returned are always \<open>0, \<dots>, k - 1\<close> for some \<open>k\<close> up to the
  length of the list (at least one index when the list is not empty), and when no
  non-empty prefix passes the loop's test every index is returned: the selector itself
  never fails.
\<close>

theorem selector_contiguous_prefix:
  "(\<exists>k. k \<le> length unspent \<and> (unspent \<noteq> [] \<longrightarrow> 1 \<le> k)
        \<and> get_previous_transaction_indexes unspent amount = [0..<k])
   \<and> ((\<forall>k. 1 \<le> k \<and> k \<le> length unspent \<longrightarrow> \<not> exceeds (map utxo_amount unspent) amount k)
        \<longrightarrow> get_previous_transaction_indexes unspent amount = [0..<length unspent])"
proof (intro conjI impI)
  from indexes_loop_prefix [where as = "map utxo_amount unspent" and amount = amount and i = 0 and t = 0 and acc = "[]"]
  show "\<exists>k. k \<le> length unspent \<and> (unspent \<noteq> [] \<longrightarrow> 1 \<le> k)
        \<and> get_previous_transaction_indexes unspent amount = [0..<k]"
    by (simp add: get_previous_transaction_indexes_def)
next
  assume a: "\<forall>k. 1 \<le> k \<and> k \<le> length unspent \<longrightarrow> \<not> exceeds (map utxo_amount unspent) amount k"
  have "indexes_loop amount 0 0 (map utxo_amount unspent) [] = [0..<length (map utxo_amount unspent)]"
    using a by (intro indexes_loop_start_exhausted) auto
  then show "get_previous_transaction_indexes unspent amount = [0..<length unspent]"
    by (simp add: get_previous_transaction_indexes_def)
qed

theorem selector_contiguous_prefix_witness:
  "get_previous_transaction_indexes
     [\<lparr>utxo_hash = ''aa'', utxo_output_index = 0, utxo_amount = 100, utxo_script = ''76a9''\<rparr>,
      \<lparr>utxo_hash = ''bb'', utxo_output_index = 1, utxo_amount = 200, utxo_script = ''76a9''\<rparr>]
     1000 = [0, 1]"
proof -
  let ?us = "[\<lparr>utxo_hash = ''aa'', utxo_output_index = 0, utxo_amount = 100, utxo_script = ''76a9''\<rparr>,
      \<lparr>utxo_hash = ''bb'', utxo_output_index = 1, utxo_amount = 200, utxo_script = ''76a9''\<rparr>]"
  have m: "\<forall>k. 1 \<le> k \<and> k \<le> length ?us \<longrightarrow> \<not> exceeds (map utxo_amount ?us) 1000 k"
  proof (intro allI impI)
    fix k :: nat assume "1 \<le> k \<and> k \<le> length ?us"
    then have "k = 1 \<or> k = 2" by auto
    then show "\<not> exceeds (map utxo_amount ?us) 1000 k"
      by (auto simp: exceeds_def prefix_amount_def fee_calculator_def)
  qed
  show ?thesis
    using selector_contiguous_prefix [of ?us 1000] m by simp
qed

section \<open>The example library on the example values\<close>

lemma example_btcpy_simps:
  "unhexlify_error example_btcpy = example_unhexlify_error"
  "construct_error example_btcpy = example_construct_error"
  "spend_error example_btcpy = example_spend_error"
  by (simp_all add: example_btcpy_def)

lemma example_scripts_accepted:
  "example_unhexlify_error (P2shScript ''a9142bb013c3e4beb08421dedcf815cb65a5c388178b87'') = None"
  "example_unhexlify_error (P2pkhScript ''76a91464a8390b0b1685fcbf2d4b457118dc8da92d553488ac'') = None"
  "example_unhexlify_error (P2pkhScript ''76a9147b7c4431a43b612a72f8229935c469f1f690365888ac'') = None"
  "example_unhexlify_error (Script h) = None"
  by (simp_all add: example_unhexlify_error_def)

lemma example_wallet_fields:
  "wallet_p2pkh example_wallet = ''76a91464a8390b0b1685fcbf2d4b457118dc8da92d553488ac''"
  "wallet_address example_wallet = ''mphBPZf15cRFcL5tUq6mCbE84XobZ1vg7Q''"
  by (simp_all add: example_wallet_def)

section \<open>Properties of the fund builder\<close>

lemma selected_upt: "selected (Some [0..<k]) i = (i < k)"
  by (simp add: selected_def)

lemma inputs_loop_upt:
  "inputs_loop i us (Some [0..<k]) acc =
     (fst acc @ map utxo_input (take (k - i) us),
      snd acc + sum_list (map utxo_amount (take (k - i) us)))"
proof (induction us arbitrary: i acc)
  case Nil
  then show ?case by simp
next
  case (Cons u us)
  show ?case
  proof (cases "i < k")
    case True
    then have "k - i = Suc (k - Suc i)" by simp
    with True show ?thesis by (simp add: selected_upt Cons.IH)
  next
    case False
    then show ?thesis by (simp add: selected_upt Cons.IH)
  qed
qed

lemma get_previous_transaction_indexes_upt:
  "get_previous_transaction_indexes unspent amount =
     [0..<length (get_previous_transaction_indexes unspent amount)]
   \<and> length (get_previous_transaction_indexes unspent amount) \<le> length unspent"
proof -
  from indexes_loop_prefix [where as = "map utxo_amount unspent" and amount = amount
      and i = 0 and t = 0 and acc = "[]"]
  obtain k where "k \<le> length unspent" "get_previous_transaction_indexes unspent amount = [0..<k]"
    by (auto simp: get_previous_transaction_indexes_def)
  then show ?thesis by simp
qed

lemma Transaction_inputs_selected:
  "Transaction_inputs unspent (Some (get_previous_transaction_indexes unspent amount)) =
     (map utxo_input (take (length (get_previous_transaction_indexes unspent amount)) unspent),
      prefix_amount (map utxo_amount unspent)
        (length (get_previous_transaction_indexes unspent amount)))"
proof -
  let ?n = "length (get_previous_transaction_indexes unspent amount)"
  have "Transaction_inputs unspent (Some (get_previous_transaction_indexes unspent amount))
      = Transaction_inputs unspent (Some [0..<?n])"
    using get_previous_transaction_indexes_upt [of unspent amount] by simp
  also have "\<dots> = (map utxo_input (take ?n unspent), sum_list (map utxo_amount (take ?n unspent)))"
    by (simp add: Transaction_inputs_def inputs_loop_upt)
  finally show ?thesis by (simp add: prefix_amount_def take_map)
qed

text \<open>
  Claim C4, as stated: whenever the selected outputs cover the target and the fee,
  \<^verbatim>\<open>build_transaction\<close> succeeds. For a target of -300 the outputs of the example
  wallet cover target and fee, no \<^verbatim>\<open>BalanceError\<close> is raised, and the constructor of
  the transaction raises \<^verbatim>\<open>OverflowError\<close>: a negative amount does not fit the
  unsigned field of an output value.
\<close>

theorem fund_build_transaction_overflow_counterexample:
  "\<not> prefix_amount (map utxo_amount (wallet_unspent example_wallet))
        (length (get_previous_transaction_indexes (wallet_unspent example_wallet) (- 300)))
      < - 300 + fee_calculator
          (int (length (get_previous_transaction_indexes (wallet_unspent example_wallet) (- 300)))) 2
   \<and> FundTransaction_build_transaction example_btcpy (FundTransaction_init 2 ''testnet'')
        example_wallet example_htlc (- 300) 0 = Inl (LibraryError OverflowError)"
  by (simp add: FundTransaction_build_transaction_def FundTransaction_init_def Let_def
      get_previous_transaction_indexes_def Transaction_inputs_def selected_def utxo_input_def
      prefix_amount_def fee_calculator_def example_wallet_def example_htlc_def unhexlify_def
      MutableTransaction_new_def example_btcpy_simps example_scripts_accepted
      example_construct_error_def fits_def)

text \<open>
  Claim C4, amended. With \<open>n\<close> the number of selected outputs, \<open>accumulated\<close> their
  amount and \<open>f\<close> the fee for \<open>n\<close> inputs and two outputs, \<^verbatim>\<open>build_transaction\<close> of
  the fund variant raises \<^verbatim>\<open>BalanceError\<close> exactly when \<open>accumulated < amount + f\<close>.
  Otherwise the only failures are those of the library, for one of the two output
  scripts or for the transaction itself; whenever it succeeds it has recorded the fee
  \<open>f\<close> and built the transaction that spends the selected outputs into exactly two
  outputs, the contract output of the target amount at index 0 and the change
  \<open>accumulated - f - amount\<close> to the funder at index 1; and it does succeed when the
  library refuses neither script nor that transaction.
\<close>

theorem fund_build_transaction_outcome:
  "let unspent = wallet_unspent wallet;
       n = length (get_previous_transaction_indexes unspent amount);
       accumulated = prefix_amount (map utxo_amount unspent) n;
       f = fee_calculator (int n) 2;
       tx = MutableTransaction (version self) (map utxo_input (take n unspent))
              [TxOut amount 0 (P2shScript (HTLC_hash htlc)),
               TxOut (accumulated - f - amount) 1 (P2pkhScript (wallet_p2pkh wallet))]
              locktime;
       result = FundTransaction_build_transaction lib self wallet htlc amount locktime
   in (result = Inl BalanceError \<longleftrightarrow> accumulated < amount + f)
      \<and> (\<forall>e. result = Inl e \<and> e \<noteq> BalanceError \<longrightarrow>
            (\<exists>l. e = LibraryError l
               \<and> (unhexlify_error lib (P2shScript (HTLC_hash htlc)) = Some l
                  \<or> unhexlify_error lib (P2pkhScript (wallet_p2pkh wallet)) = Some l
                  \<or> construct_error lib tx = Some l)))
      \<and> (\<forall>self'. result = Inr self' \<longrightarrow> fee self' = f \<and> transaction self' = Some tx)
      \<and> (\<not> accumulated < amount + f
           \<and> unhexlify_error lib (P2shScript (HTLC_hash htlc)) = None
           \<and> unhexlify_error lib (P2pkhScript (wallet_p2pkh wallet)) = None
           \<and> construct_error lib tx = None
          \<longrightarrow> (\<exists>self'. result = Inr self'))"
proof -
  have n: "min (length (wallet_unspent wallet))
      (length (get_previous_transaction_indexes (wallet_unspent wallet) amount)) =
      length (get_previous_transaction_indexes (wallet_unspent wallet) amount)"
    using get_previous_transaction_indexes_upt [of "wallet_unspent wallet" amount] by simp
  have a: "\<And>x y z :: int. x - (y + z) = x - y - z" by simp
  show ?thesis
    unfolding Let_def FundTransaction_build_transaction_def
    by (auto simp: Transaction_inputs_selected n a unhexlify_def MutableTransaction_new_def
        split: option.splits)
qed

theorem fund_build_transaction_outcome_witness:
  "(\<exists>self'. FundTransaction_build_transaction example_btcpy (FundTransaction_init 2 ''testnet'')
        example_wallet example_htlc 10000 0 = Inr self'
      \<and> fee self' = 678
      \<and> transaction self' = Some (MutableTransaction 2
            [TxIn ''91f3a0dc0621f78be74a971dfb35d75255426d273f766456d9975006ece78b88'' 1
               ScriptSig_empty Sequence_max]
            [TxOut 10000 0 (P2shScript ''a9142bb013c3e4beb08421dedcf815cb65a5c388178b87''),
             TxOut 974268 1 (P2pkhScript ''76a91464a8390b0b1685fcbf2d4b457118dc8da92d553488ac'')]
            0))
   \<and> FundTransaction_build_transaction example_btcpy (FundTransaction_init 2 ''testnet'')
       example_wallet example_htlc 984269 0 = Inl BalanceError"
proof -
  have i1: "length (get_previous_transaction_indexes (wallet_unspent example_wallet) 10000) = 1"
    by (simp add: get_previous_transaction_indexes_def example_wallet_def fee_calculator_def)
  have i2: "length (get_previous_transaction_indexes (wallet_unspent example_wallet) 984269) = 1"
    by (simp add: get_previous_transaction_indexes_def example_wallet_def fee_calculator_def)
  have a: "prefix_amount (map utxo_amount (wallet_unspent example_wallet)) 1 = 984946"
    by (simp add: prefix_amount_def example_wallet_def)
  have f: "fee_calculator (int 1) 2 = 678"
    by (simp add: fee_calculator_def)
  have t: "map utxo_input (take 1 (wallet_unspent example_wallet)) =
      [TxIn ''91f3a0dc0621f78be74a971dfb35d75255426d273f766456d9975006ece78b88'' 1
         ScriptSig_empty Sequence_max]"
    by (simp add: example_wallet_def utxo_input_def)
  have v: "version (FundTransaction_init 2 ''testnet'') = 2"
    by (simp add: FundTransaction_init_def)
  have h: "HTLC_hash example_htlc = ''a9142bb013c3e4beb08421dedcf815cb65a5c388178b87''"
    by (simp add: example_htlc_def)
  have p: "wallet_p2pkh example_wallet = ''76a91464a8390b0b1685fcbf2d4b457118dc8da92d553488ac''"
    by (simp add: example_wallet_def)
  have c: "example_construct_error (MutableTransaction 2
            [TxIn ''91f3a0dc0621f78be74a971dfb35d75255426d273f766456d9975006ece78b88'' 1
               ScriptSig_empty Sequence_max]
            [TxOut 10000 0 (P2shScript ''a9142bb013c3e4beb08421dedcf815cb65a5c388178b87''),
             TxOut (984946 - 678 - 10000) 1
               (P2pkhScript ''76a91464a8390b0b1685fcbf2d4b457118dc8da92d553488ac'')]
            0) = None"
    by (simp add: example_construct_error_def fits_def)
  note w = fund_build_transaction_outcome
      [of example_wallet 10000 "FundTransaction_init 2 ''testnet''" example_htlc 0 example_btcpy,
       unfolded Let_def i1 a f t v h p example_btcpy_simps example_scripts_accepted c]
  from w obtain s where s: "FundTransaction_build_transaction example_btcpy
      (FundTransaction_init 2 ''testnet'') example_wallet example_htlc 10000 0 = Inr s"
    by auto
  with w have "fee s = 678 \<and> transaction s = Some (MutableTransaction 2
            [TxIn ''91f3a0dc0621f78be74a971dfb35d75255426d273f766456d9975006ece78b88'' 1
               ScriptSig_empty Sequence_max]
            [TxOut 10000 0 (P2shScript ''a9142bb013c3e4beb08421dedcf815cb65a5c388178b87''),
             TxOut 974268 1 (P2pkhScript ''76a91464a8390b0b1685fcbf2d4b457118dc8da92d553488ac'')]
            0)"
    by simp
  with s have first: "\<exists>self'. FundTransaction_build_transaction example_btcpy
        (FundTransaction_init 2 ''testnet'') example_wallet example_htlc 10000 0 = Inr self'
      \<and> fee self' = 678
      \<and> transaction self' = Some (MutableTransaction 2
            [TxIn ''91f3a0dc0621f78be74a971dfb35d75255426d273f766456d9975006ece78b88'' 1
               ScriptSig_empty Sequence_max]
            [TxOut 10000 0 (P2shScript ''a9142bb013c3e4beb08421dedcf815cb65a5c388178b87''),
             TxOut 974268 1 (P2pkhScript ''76a91464a8390b0b1685fcbf2d4b457118dc8da92d553488ac'')]
            0)"
    by blast
  have second: "FundTransaction_build_transaction example_btcpy
       (FundTransaction_init 2 ''testnet'') example_wallet example_htlc 984269 0 = Inl BalanceError"
    using fund_build_transaction_outcome
      [of example_wallet 984269 "FundTransaction_init 2 ''testnet''" example_htlc 0 example_btcpy]
    unfolding Let_def i2 a f by simp
  from first second show ?thesis by (rule conjI)
qed

lemma example_fund_built:
  "FundTransaction_build_transaction example_btcpy (FundTransaction_init 2 ''testnet'')
     example_wallet example_htlc 10000 0 = Inr example_fund"
  by (simp add: example_fund_def FundTransaction_build_transaction_def FundTransaction_init_def
      example_wallet_def example_htlc_def get_previous_transaction_indexes_def
      Transaction_inputs_def selected_def fee_calculator_def Let_def unhexlify_def
      MutableTransaction_new_def example_btcpy_simps example_scripts_accepted
      example_construct_error_def fits_def utxo_input_def)

text \<open>
  Claim C3. The selector is to stop at the first prefix whose accumulated amount is at
  least the target plus its fee. The loop compares strictly. A first output of 1678
  meets a target of 1000 with the one-input fee of 678 exactly, and the loop goes on to
  take the second output of 5 as well; \<^verbatim>\<open>build_transaction\<close> then finds 1683 below
  the target plus the two-input fee and raises \<^verbatim>\<open>BalanceError\<close>. Its own test accepts
  equality: the wallet that holds the first output alone funds the same target, with a
  change of 0.
\<close>

theorem selector_exact_amount_evaluation:
  "reaches (map utxo_amount (wallet_unspent exact_wallet_and_more)) 1000 1
   \<and> get_previous_transaction_indexes (wallet_unspent exact_wallet_and_more) 1000 = [0, 1]
   \<and> get_previous_transaction_indexes_utils [1678, 5] 1000 = [0, 1]
   \<and> FundTransaction_build_transaction example_btcpy (FundTransaction_init 2 ''testnet'')
        exact_wallet_and_more example_htlc 1000 0 = Inl BalanceError
   \<and> get_previous_transaction_indexes (wallet_unspent exact_wallet) 1000 = [0]
   \<and> map txout_value
        (result_outputs (FundTransaction_build_transaction example_btcpy
           (FundTransaction_init 2 ''testnet'') exact_wallet example_htlc 1000 0))
      = [1000, 0]"
  by (simp add: reaches_def prefix_amount_def fee_calculator_def
      get_previous_transaction_indexes_def get_previous_transaction_indexes_utils_def
      exact_wallet_and_more_def exact_wallet_def example_htlc_def
      FundTransaction_build_transaction_def FundTransaction_init_def Let_def
      Transaction_inputs_def selected_def utxo_input_def unhexlify_def
      MutableTransaction_new_def example_btcpy_simps example_scripts_accepted
      example_construct_error_def fits_def result_outputs_def)

section \<open>Properties of the claim and refund builders\<close>

lemma example_claim_init:
  "ClaimTransaction_init example_btcpy example_transaction_id example_wallet example_detail
     ''testnet'' 2 = Inr example_claim"
  by (simp add: example_claim_def ClaimTransaction_init_def example_detail_def unhexlify_def
      example_btcpy_simps example_scripts_accepted)

lemma example_refund_init:
  "RefundTransaction_init example_btcpy example_transaction_id example_wallet example_detail
     ''testnet'' 2 = Inr example_refund"
  by (simp add: example_refund_def RefundTransaction_init_def example_detail_def unhexlify_def
      example_btcpy_simps example_scripts_accepted)

lemma example_claim_fields:
  "transaction example_claim = None"
  "version example_claim = 2"
  "network example_claim = ''testnet''"
  "claim_wallet example_claim = example_wallet"
  "claim_htlc_transaction_id example_claim = example_transaction_id"
  "claim_htlc_value example_claim = 10000"
  "claim_htlc_script example_claim = P2shScript ''a9142bb013c3e4beb08421dedcf815cb65a5c388178b87''"
  "claim_sender_address example_claim =
     Script_address (P2pkhScript ''76a91464a8390b0b1685fcbf2d4b457118dc8da92d553488ac'') False"
  by (simp_all add: example_claim_def ClaimTransaction_init_def example_detail_def unhexlify_def
      example_btcpy_simps example_scripts_accepted)

lemma other_sender_claim_fields:
  "transaction other_sender_claim = None"
  "version other_sender_claim = 2"
  "network other_sender_claim = ''testnet''"
  "claim_wallet other_sender_claim = example_wallet"
  "claim_htlc_transaction_id other_sender_claim = example_transaction_id"
  "claim_htlc_value other_sender_claim = 10000"
  "claim_htlc_script other_sender_claim =
     P2shScript ''a9142bb013c3e4beb08421dedcf815cb65a5c388178b87''"
  "claim_sender_address other_sender_claim =
     Script_address (P2pkhScript ''76a9147b7c4431a43b612a72f8229935c469f1f690365888ac'') False"
  by (simp_all add: other_sender_claim_def ClaimTransaction_init_def other_sender_detail_def
      unhexlify_def example_btcpy_simps example_scripts_accepted)

lemma example_refund_fields:
  "transaction example_refund = None"
  "version example_refund = 2"
  "network example_refund = ''testnet''"
  "refund_wallet example_refund = example_wallet"
  "refund_htlc_transaction_id example_refund = example_transaction_id"
  "refund_htlc_value example_refund = 10000"
  "refund_htlc_script example_refund = P2shScript ''a9142bb013c3e4beb08421dedcf815cb65a5c388178b87''"
  "refund_sender_address example_refund =
     Script_address (P2pkhScript ''76a91464a8390b0b1685fcbf2d4b457118dc8da92d553488ac'') False"
  by (simp_all add: example_refund_def RefundTransaction_init_def example_detail_def unhexlify_def
      example_btcpy_simps example_scripts_accepted)

text \<open>
  With the example library, a first output that is not a P2SH script makes both
  constructors fail before the second output is looked at, and a funded value below the
  fee of 576 makes both builders fail in the constructor of the transaction.
\<close>

lemma init_wrong_script_type:
  "ClaimTransaction_init example_btcpy tid wallet
     (Some [\<lparr>detail_value = 10000,
              detail_script = ''76a91464a8390b0b1685fcbf2d4b457118dc8da92d553488ac''\<rparr>])
     net ver = Inl (LibraryError WrongScriptTypeException)"
  "RefundTransaction_init example_btcpy tid wallet
     (Some [\<lparr>detail_value = 10000,
              detail_script = ''76a91464a8390b0b1685fcbf2d4b457118dc8da92d553488ac''\<rparr>])
     net ver = Inl (LibraryError WrongScriptTypeException)"
  by (simp_all add: ClaimTransaction_init_def RefundTransaction_init_def unhexlify_def
      example_btcpy_simps example_unhexlify_error_def)

lemma build_below_fee:
  assumes "fits 32 (version c)" and "fits 32 locktime"
  shows "example_unhexlify_error (P2pkhScript (wallet_p2pkh (claim_wallet c))) = None \<Longrightarrow>
      claim_htlc_value c < 576 \<Longrightarrow>
      ClaimTransaction_build_transaction example_btcpy c locktime = Inl (LibraryError OverflowError)"
    and "example_unhexlify_error (P2pkhScript (wallet_p2pkh (refund_wallet r))) = None \<Longrightarrow>
      refund_htlc_value r < 576 \<Longrightarrow>
      RefundTransaction_build_transaction example_btcpy r locktime = Inl (LibraryError OverflowError)"
  by (simp_all add: ClaimTransaction_build_transaction_def RefundTransaction_build_transaction_def
      Let_def unhexlify_def MutableTransaction_new_def example_btcpy_simps
      example_construct_error_def fits_def fee_calculator_def)

lemma example_refund_built:
  "RefundTransaction_build_transaction example_btcpy example_refund 0 =
     Inr (example_refund\<lparr>fee := 576, transaction := Some (MutableTransaction 2
        [TxIn example_transaction_id 0 ScriptSig_empty Sequence_max]
        [TxOut 9424 0 (P2pkhScript ''76a91464a8390b0b1685fcbf2d4b457118dc8da92d553488ac'')] 0)\<rparr>)"
  by (simp add: RefundTransaction_build_transaction_def Let_def example_refund_fields
      example_wallet_fields unhexlify_def MutableTransaction_new_def example_btcpy_simps
      example_scripts_accepted example_construct_error_def fits_def fee_calculator_def)

lemma example_claim_built:
  "ClaimTransaction_build_transaction example_btcpy example_claim 0 =
     Inr (example_claim\<lparr>fee := 576, transaction := Some (MutableTransaction 2
        [TxIn example_transaction_id 0 ScriptSig_empty Sequence_max]
        [TxOut 9424 0 (P2pkhScript ''76a91464a8390b0b1685fcbf2d4b457118dc8da92d553488ac'')] 0)\<rparr>)"
  by (simp add: ClaimTransaction_build_transaction_def Let_def example_claim_fields
      example_wallet_fields unhexlify_def MutableTransaction_new_def example_btcpy_simps
      example_scripts_accepted example_construct_error_def fits_def fee_calculator_def)

lemma other_sender_claim_built:
  "ClaimTransaction_build_transaction example_btcpy other_sender_claim 0 =
     Inr (other_sender_claim\<lparr>fee := 576, transaction := Some (MutableTransaction 2
        [TxIn example_transaction_id 0 ScriptSig_empty Sequence_max]
        [TxOut 9424 0 (P2pkhScript ''76a91464a8390b0b1685fcbf2d4b457118dc8da92d553488ac'')] 0)\<rparr>)"
  by (simp add: ClaimTransaction_build_transaction_def Let_def other_sender_claim_fields
      example_wallet_fields unhexlify_def MutableTransaction_new_def example_btcpy_simps
      example_scripts_accepted example_construct_error_def fits_def fee_calculator_def)

text \<open>
  Claim C1, as stated: the refund builder sets the sequence of the spending input to the
  timeout of the contract. For a contract with timeout 1000 (the sequence of the refund
  solver) the built input carries 4294967295, the value of \<^verbatim>\<open>Sequence.max()\<close>.
\<close>

theorem refund_sequence_counterexample:
  "refund_sequence example_refund_solver = 1000
   \<and> input_sequences (RefundTransaction_build_transaction example_btcpy example_refund 0)
      = [Sequence 4294967295]
   \<and> Sequence 4294967295 \<noteq> Sequence (refund_sequence example_refund_solver)"
  by (simp add: example_refund_built input_sequences_def result_inputs_def Sequence_max_def
      example_refund_solver_def)

text \<open>
  Claim C1, amended: whenever \<^verbatim>\<open>build_transaction\<close> of the refund variant succeeds,
  the transaction it built has one input, which spends output 0 of the funding
  transaction with an empty unlocking script and the sequence \<^verbatim>\<open>Sequence.max()\<close> =
  4294967295, whatever the timeout of the contract. It succeeds when the library
  refuses neither the wallet's script nor that transaction, and fails only with what
  the library raises.
\<close>

theorem refund_build_transaction_sequence:
  "let tx = MutableTransaction (version self)
              [TxIn (refund_htlc_transaction_id self) 0 ScriptSig_empty Sequence_max]
              [TxOut (refund_htlc_value self - fee_calculator 1 1) 0
                 (P2pkhScript (wallet_p2pkh (refund_wallet self)))]
              locktime;
       result = RefundTransaction_build_transaction lib self locktime
   in (\<forall>self'. result = Inr self' \<longrightarrow>
         transaction self' = Some tx \<and> input_sequences result = [Sequence 4294967295])
      \<and> (unhexlify_error lib (P2pkhScript (wallet_p2pkh (refund_wallet self))) = None
          \<and> construct_error lib tx = None \<longrightarrow> (\<exists>self'. result = Inr self'))
      \<and> (\<forall>e. result = Inl e \<longrightarrow>
            (\<exists>l. e = LibraryError l
               \<and> (unhexlify_error lib (P2pkhScript (wallet_p2pkh (refund_wallet self))) = Some l
                  \<or> construct_error lib tx = Some l)))"
  unfolding Let_def RefundTransaction_build_transaction_def
  by (auto simp: unhexlify_def MutableTransaction_new_def input_sequences_def
      result_inputs_def Sequence_max_def split: option.splits)

theorem refund_build_transaction_sequence_witness:
  "input_sequences (RefundTransaction_build_transaction example_btcpy example_refund 0)
     = [Sequence 4294967295]
   \<and> (\<exists>self'. RefundTransaction_build_transaction example_btcpy example_refund 0 = Inr self'
        \<and> transaction self' = Some (MutableTransaction 2
            [TxIn example_transaction_id 0 ScriptSig_empty Sequence_max]
            [TxOut 9424 0 (P2pkhScript ''76a91464a8390b0b1685fcbf2d4b457118dc8da92d553488ac'')]
            0))"
proof -
  have c: "example_construct_error (MutableTransaction 2
      [TxIn example_transaction_id 0 ScriptSig_empty Sequence_max]
      [TxOut (10000 - fee_calculator 1 1) 0
         (P2pkhScript ''76a91464a8390b0b1685fcbf2d4b457118dc8da92d553488ac'')] 0) = None"
    by (simp add: example_construct_error_def fits_def fee_calculator_def)
  have f: "10000 - fee_calculator 1 1 = 9424"
    by (simp add: fee_calculator_def)
  note w = refund_build_transaction_sequence [of example_refund 0 example_btcpy,
      unfolded Let_def example_refund_fields example_wallet_fields example_btcpy_simps
        example_scripts_accepted c]
  from w obtain s where s: "RefundTransaction_build_transaction example_btcpy example_refund 0
      = Inr s"
    by auto
  with w have "transaction s = Some (MutableTransaction 2
      [TxIn example_transaction_id 0 ScriptSig_empty Sequence_max]
      [TxOut (10000 - fee_calculator 1 1) 0
         (P2pkhScript ''76a91464a8390b0b1685fcbf2d4b457118dc8da92d553488ac'')] 0)
    \<and> input_sequences (RefundTransaction_build_transaction example_btcpy example_refund 0)
      = [Sequence 4294967295]"
    by simp
  with s f show ?thesis by simp
qed

text \<open>
  What \<^verbatim>\<open>sign\<close> then does to the sequence: the refund solver's relative timelock
  replaces it, the claim solver leaves it.
\<close>

lemma spend_single:
  "spend lib (MutableTransaction v [i] outs l) [out] [sv] =
     (case spend_error lib (MutableTransaction v [i] outs l) [out] [sv] of
        Some e \<Rightarrow> Inl (LibraryError e)
      | None \<Rightarrow>
          Inr (MutableTransaction v
            [TxIn (txin_txid i) (txin_txout i) (ScriptSig_solved out sv)
               (case relative_timelock sv of Some s \<Rightarrow> s | None \<Rightarrow> txin_sequence i)]
            outs l))"
  by (simp add: spend_def solve_input_def split: option.splits)

lemma sign_sets_sequence:
  "RefundTransaction_build_and_sign lib double_sha256 self locktime solver = Inr signed \<Longrightarrow>
     input_sequences (Inr signed) = [Sequence (refund_sequence solver)]"
  "ClaimTransaction_build_and_sign lib double_sha256 c locktime cs = Inr csigned \<Longrightarrow>
     input_sequences (Inr csigned) = [Sequence_max]"
  by (auto simp: RefundTransaction_build_and_sign_def RefundTransaction_build_transaction_def
      ClaimTransaction_build_and_sign_def ClaimTransaction_build_transaction_def
      RefundTransaction_sign_def ClaimTransaction_sign_def Let_def unhexlify_def
      MutableTransaction_new_def spend_single input_sequences_def result_inputs_def
      RefundSolver_solve_def ClaimSolver_solve_def split: option.splits)

lemma example_refund_signed_sequence:
  "input_sequences (RefundTransaction_build_and_sign example_btcpy symbolic_double_sha256
      example_refund 0 example_refund_solver) = [Sequence 1000]"
  by (simp add: RefundTransaction_build_and_sign_def example_refund_built
      RefundTransaction_sign_def Let_def spend_single example_btcpy_simps
      example_spend_error_def input_sequences_def result_inputs_def RefundSolver_solve_def
      example_refund_solver_def)

lemma example_spend_single:
  "example_spend_error (MutableTransaction v [i] outs l) [out] [sv] = None"
  by (simp add: example_spend_error_def)

text \<open>
  Claim C5. Before \<^verbatim>\<open>build_transaction\<close>, \<^verbatim>\<open>raw\<close>, \<^verbatim>\<open>hash\<close> and
  \<^verbatim>\<open>unsigned_raw\<close> raise \<^verbatim>\<open>ValueError\<close> in all three variants and so does \<^verbatim>\<open>sign\<close>
  of the fund variant, which has the guard. \<^verbatim>\<open>sign\<close> of the claim and of the refund
  variant have no guard: they fail with the \<^verbatim>\<open>AttributeError\<close> of calling
  \<^verbatim>\<open>spend\<close> on \<^verbatim>\<open>None\<close>.
\<close>

theorem sign_before_build_transaction:
  assumes "transaction f = None" and "transaction c = None" and "transaction r = None"
  shows "FundTransaction_sign lib f fs = Inl ValueError
    \<and> ClaimTransaction_sign lib h c cs = Inl AttributeError
    \<and> RefundTransaction_sign lib h r rs = Inl AttributeError
    \<and> Transaction_raw hx f = Inl ValueError \<and> Transaction_hash tid f = Inl ValueError
    \<and> Transaction_raw hx c = Inl ValueError \<and> Transaction_hash tid c = Inl ValueError
    \<and> Transaction_raw hx r = Inl ValueError \<and> Transaction_hash tid r = Inl ValueError
    \<and> FundTransaction_unsigned_raw hx f = Inl ValueError
    \<and> ClaimTransaction_unsigned_raw hx str c = Inl ValueError
    \<and> RefundTransaction_unsigned_raw hx str r = Inl ValueError"
  using assms
  by (simp add: FundTransaction_sign_def ClaimTransaction_sign_def RefundTransaction_sign_def
      Transaction_raw_def Transaction_hash_def FundTransaction_unsigned_raw_def
      ClaimTransaction_unsigned_raw_def RefundTransaction_unsigned_raw_def Let_def)

theorem sign_before_build_transaction_witness:
  "ClaimTransaction_sign example_btcpy symbolic_double_sha256 example_claim example_claim_solver
     = Inl AttributeError
   \<and> RefundTransaction_sign example_btcpy symbolic_double_sha256 example_refund
       example_refund_solver
     = Inl AttributeError
   \<and> FundTransaction_sign example_btcpy (FundTransaction_init 2 ''testnet'')
       \<lparr>fund_private_key = ''k''\<rparr>
     = Inl ValueError
   \<and> Inl AttributeError \<noteq> (Inl ValueError :: error + ClaimTransaction)"
proof -
  have f: "transaction (FundTransaction_init 2 ''testnet'') = None"
    by (simp add: FundTransaction_init_def)
  show ?thesis
    using sign_before_build_transaction [OF f example_claim_fields(1) example_refund_fields(1),
        where h = symbolic_double_sha256 and lib = example_btcpy
        and cs = example_claim_solver and rs = example_refund_solver
        and fs = "\<lparr>fund_private_key = ''k''\<rparr>" and hx = "\<lambda>_. example_hex"
        and tid = "\<lambda>_. example_transaction_id" and str = "\<lambda>_. []"]
    by simp
qed

section \<open>Properties of signing\<close>

text \<open>
  Claim C8, as stated: the contract script of the unlocking witness is recomputed from
  parameters that the solver supplies, the two identities among them. The sender identity
  is the address that the constructor derived from the second output of the funding
  transaction: two claims of funding transactions that differ in that output only,
  signed with the same solver, unlock with different contract scripts.
\<close>

theorem claim_sign_sender_counterexample:
  "redeem_scripts (ClaimTransaction_build_and_sign example_btcpy symbolic_double_sha256
      example_claim 0 example_claim_solver) =
     [Some (HTLC_script ''double_sha256(Hello Meheret!)''
        (Address ''mphBPZf15cRFcL5tUq6mCbE84XobZ1vg7Q'')
        (Script_address (P2pkhScript ''76a91464a8390b0b1685fcbf2d4b457118dc8da92d553488ac'') False)
        1000)]
   \<and> redeem_scripts (ClaimTransaction_build_and_sign example_btcpy symbolic_double_sha256
      other_sender_claim 0 example_claim_solver) =
     [Some (HTLC_script ''double_sha256(Hello Meheret!)''
        (Address ''mphBPZf15cRFcL5tUq6mCbE84XobZ1vg7Q'')
        (Script_address (P2pkhScript ''76a9147b7c4431a43b612a72f8229935c469f1f690365888ac'') False)
        1000)]
   \<and> redeem_scripts (ClaimTransaction_build_and_sign example_btcpy symbolic_double_sha256
      example_claim 0 example_claim_solver)
     \<noteq> redeem_scripts (ClaimTransaction_build_and_sign example_btcpy symbolic_double_sha256
      other_sender_claim 0 example_claim_solver)"
  by (simp add: ClaimTransaction_build_and_sign_def example_claim_built other_sender_claim_built
      ClaimTransaction_sign_def Let_def spend_single example_btcpy_simps example_spend_single
      redeem_scripts_def result_inputs_def HTLC_init_def example_claim_fields
      other_sender_claim_fields example_wallet_fields example_claim_solver_def
      symbolic_double_sha256_def)

text \<open>
  Claim C8, amended: whenever building and signing a claim succeeds, its input is
  unlocked with a \<^verbatim>\<open>P2shSolver\<close> whose redeem script is the contract derived afresh
  from the hash of the solver's secret and the solver's sequence, which the solver
  supplies, and from the address of the transaction's wallet as recipient and the
  sender address that the constructor derived from the funding transaction's second
  output. The script cached from the funding output, \<^verbatim>\<open>htlc_script\<close>, appears only
  in the output being spent: whatever it is replaced by, the redeem script is the same.
  Signing succeeds when building does and the library does not refuse the spend.
\<close>

theorem claim_sign_rederives_contract:
  "(\<forall>signed. ClaimTransaction_build_and_sign lib double_sha256 self locktime solver = Inr signed
       \<longrightarrow> unlocking_witnesses (Inr signed) =
             [ScriptSig_solved
                (TxOut (claim_htlc_value self) 0 (claim_htlc_script self))
                (P2shSolver
                   (HTLC_init (network self) (double_sha256 (claim_secret solver))
                      (Address (wallet_address (claim_wallet self)))
                      (claim_sender_address self) (claim_sequence solver))
                   (ClaimSolver_solve solver))])
   \<and> (\<forall>cached signed.
         ClaimTransaction_build_and_sign lib double_sha256
           (self\<lparr>claim_htlc_script := cached\<rparr>) locktime solver = Inr signed
       \<longrightarrow> redeem_scripts (Inr signed) =
             [Some (HTLC_script (double_sha256 (claim_secret solver))
                      (Address (wallet_address (claim_wallet self)))
                      (claim_sender_address self) (claim_sequence solver))])
   \<and> (\<forall>built. ClaimTransaction_build_transaction lib self locktime = Inr built
         \<and> spend_error lib (the (transaction built))
             [TxOut (claim_htlc_value self) 0 (claim_htlc_script self)]
             [P2shSolver
                (HTLC_init (network self) (double_sha256 (claim_secret solver))
                   (Address (wallet_address (claim_wallet self)))
                   (claim_sender_address self) (claim_sequence solver))
                (ClaimSolver_solve solver)] = None
       \<longrightarrow> (\<exists>signed. ClaimTransaction_build_and_sign lib double_sha256 self locktime solver
               = Inr signed))"
  by (auto simp: ClaimTransaction_build_and_sign_def ClaimTransaction_build_transaction_def
      ClaimTransaction_sign_def Let_def unhexlify_def MutableTransaction_new_def spend_single
      unlocking_witnesses_def redeem_scripts_def result_inputs_def HTLC_init_def
      split: option.splits)

theorem claim_sign_rederives_contract_witness:
  "(\<exists>signed. ClaimTransaction_build_and_sign example_btcpy symbolic_double_sha256
        (example_claim\<lparr>claim_htlc_script :=
           P2shScript ''a914000000000000000000000000000000000000000087''\<rparr>) 0
        example_claim_solver = Inr signed
      \<and> redeem_scripts (Inr signed) =
         [Some (HTLC_script ''double_sha256(Hello Meheret!)''
            (Address ''mphBPZf15cRFcL5tUq6mCbE84XobZ1vg7Q'')
            (Script_address
               (P2pkhScript ''76a91464a8390b0b1685fcbf2d4b457118dc8da92d553488ac'') False)
            1000)])
   \<and> (\<exists>signed. ClaimTransaction_build_and_sign example_btcpy symbolic_double_sha256
        example_claim 0 example_claim_solver = Inr signed
      \<and> unlocking_witnesses (Inr signed) =
         [ScriptSig_solved
            (TxOut 10000 0 (P2shScript ''a9142bb013c3e4beb08421dedcf815cb65a5c388178b87''))
            (P2shSolver
               (HTLC_script ''double_sha256(Hello Meheret!)''
                  (Address ''mphBPZf15cRFcL5tUq6mCbE84XobZ1vg7Q'')
                  (Script_address
                     (P2pkhScript ''76a91464a8390b0b1685fcbf2d4b457118dc8da92d553488ac'') False)
                  1000)
               (Claim_path ''k'' ''Hello Meheret!''))])"
proof -
  note w = claim_sign_rederives_contract [of example_btcpy symbolic_double_sha256
      example_claim 0 example_claim_solver]
  let ?cached = "P2shScript ''a914000000000000000000000000000000000000000087''"
  have b: "ClaimTransaction_build_transaction example_btcpy
      (example_claim\<lparr>claim_htlc_script := ?cached\<rparr>) 0 =
     Inr (example_claim\<lparr>claim_htlc_script := ?cached, fee := 576,
        transaction := Some (MutableTransaction 2
        [TxIn example_transaction_id 0 ScriptSig_empty Sequence_max]
        [TxOut 9424 0 (P2pkhScript ''76a91464a8390b0b1685fcbf2d4b457118dc8da92d553488ac'')] 0)\<rparr>)"
    by (simp add: ClaimTransaction_build_transaction_def Let_def example_claim_fields
      example_wallet_fields unhexlify_def MutableTransaction_new_def example_btcpy_simps
      example_scripts_accepted example_construct_error_def fits_def fee_calculator_def)
  obtain s1 where s1: "ClaimTransaction_build_and_sign example_btcpy symbolic_double_sha256
        (example_claim\<lparr>claim_htlc_script := ?cached\<rparr>) 0 example_claim_solver = Inr s1"
    by (simp add: ClaimTransaction_build_and_sign_def b ClaimTransaction_sign_def Let_def
        spend_single example_btcpy_simps example_spend_single)
  obtain s2 where s2: "ClaimTransaction_build_and_sign example_btcpy symbolic_double_sha256
        example_claim 0 example_claim_solver = Inr s2"
    by (simp add: ClaimTransaction_build_and_sign_def example_claim_built
        ClaimTransaction_sign_def Let_def spend_single example_btcpy_simps example_spend_single)
  from w s1 have "redeem_scripts (Inr s1) =
         [Some (HTLC_script (symbolic_double_sha256 (claim_secret example_claim_solver))
                  (Address (wallet_address (claim_wallet example_claim)))
                  (claim_sender_address example_claim) (claim_sequence example_claim_solver))]"
    by blast
  then have r1: "redeem_scripts (Inr s1) =
         [Some (HTLC_script ''double_sha256(Hello Meheret!)''
            (Address ''mphBPZf15cRFcL5tUq6mCbE84XobZ1vg7Q'')
            (Script_address
               (P2pkhScript ''76a91464a8390b0b1685fcbf2d4b457118dc8da92d553488ac'') False)
            1000)]"
    by (simp add: example_claim_fields example_wallet_fields example_claim_solver_def
        symbolic_double_sha256_def)
  from w s2 have "unlocking_witnesses (Inr s2) =
             [ScriptSig_solved
                (TxOut (claim_htlc_value example_claim) 0 (claim_htlc_script example_claim))
                (P2shSolver
                   (HTLC_init (network example_claim)
                      (symbolic_double_sha256 (claim_secret example_claim_solver))
                      (Address (wallet_address (claim_wallet example_claim)))
                      (claim_sender_address example_claim) (claim_sequence example_claim_solver))
                   (ClaimSolver_solve example_claim_solver))]"
    by blast
  then have r2: "unlocking_witnesses (Inr s2) =
         [ScriptSig_solved
            (TxOut 10000 0 (P2shScript ''a9142bb013c3e4beb08421dedcf815cb65a5c388178b87''))
            (P2shSolver
               (HTLC_script ''double_sha256(Hello Meheret!)''
                  (Address ''mphBPZf15cRFcL5tUq6mCbE84XobZ1vg7Q'')
                  (Script_address
                     (P2pkhScript ''76a91464a8390b0b1685fcbf2d4b457118dc8da92d553488ac'') False)
                  1000)
               (Claim_path ''k'' ''Hello Meheret!''))]"
    by (simp add: example_claim_fields example_wallet_fields example_claim_solver_def
        symbolic_double_sha256_def HTLC_init_def ClaimSolver_solve_def)
  from s1 r1 s2 r2 show ?thesis by blast
qed

text \<open>
  Claim C7, as stated: refund solvers that agree on the private key and the sequence
  give the same unlocking witness whatever their secrets. \<^verbatim>\<open>sign\<close> of the refund
  variant hashes \<^verbatim>\<open>solver.secret\<close> into the contract script it derives, and that script
  is the redeem script of the witness: two secrets with different digests give different
  witnesses.
\<close>

theorem refund_sign_secret_counterexample:
  "unlocking_witnesses (RefundTransaction_build_and_sign example_btcpy symbolic_double_sha256
     example_refund 0
     \<lparr>refund_secret = ''Hello Meheret!'', refund_private_key = ''k'', refund_sequence = 1000\<rparr>)
   = [ScriptSig_solved
        (TxOut 10000 0 (P2shScript ''a9142bb013c3e4beb08421dedcf815cb65a5c388178b87''))
        (P2shSolver
           (HTLC_script ''double_sha256(Hello Meheret!)''
              (Address ''mphBPZf15cRFcL5tUq6mCbE84XobZ1vg7Q'')
              (Script_address
                 (P2pkhScript ''76a91464a8390b0b1685fcbf2d4b457118dc8da92d553488ac'') False)
              1000)
           (Refund_path ''k'' (Sequence 1000)))]
   \<and> unlocking_witnesses (RefundTransaction_build_and_sign example_btcpy symbolic_double_sha256
     example_refund 0
     \<lparr>refund_secret = ''Hello Meheret!'', refund_private_key = ''k'', refund_sequence = 1000\<rparr>)
   \<noteq> unlocking_witnesses (RefundTransaction_build_and_sign example_btcpy symbolic_double_sha256
     example_refund 0
     \<lparr>refund_secret = ''Hello World!'', refund_private_key = ''k'', refund_sequence = 1000\<rparr>)"
  by (simp add: RefundTransaction_build_and_sign_def example_refund_built
      RefundTransaction_sign_def Let_def spend_single example_btcpy_simps example_spend_single
      unlocking_witnesses_def result_inputs_def HTLC_init_def example_refund_fields
      example_wallet_fields RefundSolver_solve_def symbolic_double_sha256_def)

text \<open>
  Claim C7, amended: \<^verbatim>\<open>sign\<close> of the refund variant reads the solver's secret as well
  as its private key and sequence. For refund solvers that agree on the private key and
  the sequence and for which building and signing succeeds, the unlocking witnesses are
  equal exactly when the hashes of their secrets are equal.
\<close>

theorem refund_sign_depends_on_secret_hash:
  assumes "refund_private_key s1 = refund_private_key s2"
    and "refund_sequence s1 = refund_sequence s2"
    and "RefundTransaction_build_and_sign lib double_sha256 self locktime s1 = Inr signed1"
    and "RefundTransaction_build_and_sign lib double_sha256 self locktime s2 = Inr signed2"
  shows "(unlocking_witnesses (Inr signed1) = unlocking_witnesses (Inr signed2)
         \<longleftrightarrow> double_sha256 (refund_secret s1) = double_sha256 (refund_secret s2))
      \<and> unlocking_witnesses (Inr signed1) =
         [ScriptSig_solved (TxOut (refund_htlc_value self) 0 (refund_htlc_script self))
            (P2shSolver
               (HTLC_script (double_sha256 (refund_secret s1))
                  (Address (wallet_address (refund_wallet self)))
                  (refund_sender_address self) (refund_sequence s1))
               (RefundSolver_solve s1))]"
  using assms
  by (auto simp: RefundTransaction_build_and_sign_def RefundTransaction_build_transaction_def
      RefundTransaction_sign_def Let_def unhexlify_def MutableTransaction_new_def spend_single
      HTLC_init_def RefundSolver_solve_def unlocking_witnesses_def result_inputs_def
      split: option.splits)

theorem refund_sign_depends_on_secret_hash_witness:
  "(\<exists>signed1 signed2.
      RefundTransaction_build_and_sign example_btcpy symbolic_double_sha256 example_refund 0
        example_refund_solver = Inr signed1
      \<and> RefundTransaction_build_and_sign example_btcpy symbolic_double_sha256 example_refund 0
        (example_refund_solver\<lparr>refund_secret := ''Hello World!''\<rparr>) = Inr signed2
      \<and> unlocking_witnesses (Inr signed1) \<noteq> unlocking_witnesses (Inr signed2))
   \<and> refund_secret example_refund_solver
      \<noteq> refund_secret (example_refund_solver\<lparr>refund_secret := ''Hello World!''\<rparr>)"
proof -
  let ?s2 = "example_refund_solver\<lparr>refund_secret := ''Hello World!''\<rparr>"
  obtain r1 where r1: "RefundTransaction_build_and_sign example_btcpy symbolic_double_sha256
      example_refund 0 example_refund_solver = Inr r1"
    by (simp add: RefundTransaction_build_and_sign_def example_refund_built
        RefundTransaction_sign_def Let_def spend_single example_btcpy_simps example_spend_single)
  obtain r2 where r2: "RefundTransaction_build_and_sign example_btcpy symbolic_double_sha256
      example_refund 0 ?s2 = Inr r2"
    by (simp add: RefundTransaction_build_and_sign_def example_refund_built
        RefundTransaction_sign_def Let_def spend_single example_btcpy_simps example_spend_single)
  have k: "refund_private_key example_refund_solver = refund_private_key ?s2"
    and q: "refund_sequence example_refund_solver = refund_sequence ?s2"
    by simp_all
  have d: "symbolic_double_sha256 (refund_secret example_refund_solver)
      \<noteq> symbolic_double_sha256 (refund_secret ?s2)"
    by (simp add: symbolic_double_sha256_def example_refund_solver_def)
  have s: "refund_secret example_refund_solver \<noteq> refund_secret ?s2"
    by (simp add: example_refund_solver_def)
  from refund_sign_depends_on_secret_hash [OF k q r1 r2] d
  have "unlocking_witnesses (Inr r1) \<noteq> unlocking_witnesses (Inr r2)"
    by blast
  with r1 r2 s show ?thesis by blast
qed

section \<open>Properties of the envelope\<close>









lemma example_envelope_encoded:
  "encode_transaction_raw example_envelope =
     JObj [(''fee'', JInt 678),
           (''raw'', JStr example_hex),
           (''outputs'', JList [JObj [(''amount'', JInt 984946), (''n'', JInt 1),
              (''script'', JStr ''76a91464a8390b0b1685fcbf2d4b457118dc8da92d553488ac'')]]),
           (''network'', JStr ''testnet''),
           (''type'', JStr ''bitcoin_fund_unsigned'')]"
  by (simp add: encode_transaction_raw_def example_envelope_def encode_output_def type_tag_def)



end
